theory Spec2Isabelle
  imports Complex_Main "HOL-Library.Word"
begin

section \<open>Numbers and numpy primitives\<close>

text \<open>
  Python floats (float64) are modelled by the real numbers they denote: rounding error,
  overflow and the non-finite values are outside the model, except for the average of
  \<open>analyze_batch\<close>, whose float value is a parameter. Where the source divides, the
  divisor is a named quantity below, so that the absence of a division by zero (the only
  source of NaN or Infinity in exact arithmetic) is a statement about the model.
  Python integers are \<open>int\<close>.
\<close>

text \<open>Python's \<open>int(x)\<close> on a float truncates towards zero.\<close>

definition py_int :: "real \<Rightarrow> int" where
  "py_int x = (if 0 \<le> x then \<lfloor>x\<rfloor> else \<lceil>x\<rceil>)"

text \<open>\<open>numpy.ndarray.mean\<close> of a one-dimensional array.\<close>

definition np_mean :: "real list \<Rightarrow> real" where
  "np_mean xs = sum_list xs / real (length xs)"

text \<open>\<open>numpy.ndarray.std\<close> with the default \<open>ddof = 0\<close>: the population standard deviation.\<close>

definition np_std :: "real list \<Rightarrow> real" where
  "np_std xs = sqrt (np_mean (map (\<lambda>x. (x - np_mean xs)\<^sup>2) xs))"

text \<open>
  \<open>numpy.fft.rfft\<close>: bins \<open>0 .. n div 2\<close> of the discrete Fourier transform,
  bin \<open>k\<close> being \<open>\<Sum>m<n. x[m] * exp (-2 pi i k m / n)\<close>.
\<close>

definition dft_bin :: "real list \<Rightarrow> nat \<Rightarrow> complex" where
  "dft_bin xs k =
     (\<Sum>m\<leftarrow>[0..<length xs].
        complex_of_real (xs ! m) * cis (- (2 * pi * real k * real m / real (length xs))))"

definition rfft :: "real list \<Rightarrow> complex list" where
  "rfft xs = map (dft_bin xs) [0..<length xs div 2 + 1]"

text \<open>
  \<open>numpy.fft.rfftfreq(n, d)\<close>: \<open>val = 1.0 / (n * d)\<close> and the result is
  \<open>arange(0, n // 2 + 1) * val\<close>.
\<close>

definition rfftfreq :: "nat \<Rightarrow> real \<Rightarrow> real list" where
  "rfftfreq n d = map (\<lambda>i. real i * (1 / (real n * d))) [0..<n div 2 + 1]"

text \<open>Boolean-mask indexing \<open>a[mask]\<close>: the entries of \<open>a\<close> where the mask is true.\<close>

definition masked :: "'a list \<Rightarrow> bool list \<Rightarrow> 'a list" where
  "masked xs msk = map fst (filter snd (zip xs msk))"

text \<open>\<open>numpy.clip(x, lo, hi)\<close> is \<open>minimum(maximum(x, lo), hi)\<close>.\<close>

definition np_clip :: "real \<Rightarrow> real \<Rightarrow> real \<Rightarrow> real" where
  "np_clip x lo hi = min (max x lo) hi"

section \<open>ppg.py: the per-session colour buffers\<close>

text \<open>
  \<open>class PPGSession\<close>: three \<open>deque(maxlen = MAX_LEN)\<close> of floats. The fields \<open>r\<close>,
  \<open>g\<close>, \<open>b\<close> of the source are \<open>buf_r\<close>, \<open>buf_g\<close>, \<open>buf_b\<close> here.
\<close>

definition MAX_LEN :: nat where
  "MAX_LEN = 300"

record PPGSession =
  buf_r :: "real list"
  buf_g :: "real list"
  buf_b :: "real list"

definition new_session :: PPGSession where
  "new_session = \<lparr>buf_r = [], buf_g = [], buf_b = []\<rparr>"

text \<open>
  \<open>deque.append\<close> on a bounded deque: the item goes to the right end, and when the deque
  then holds more than \<open>maxlen\<close> items the leftmost one is discarded.
\<close>

definition deque_append :: "real list \<Rightarrow> real \<Rightarrow> real list" where
  "deque_append xs x = (let ys = xs @ [x] in if MAX_LEN < length ys then tl ys else ys)"

definition session_append :: "PPGSession \<Rightarrow> real \<Rightarrow> real \<Rightarrow> real \<Rightarrow> PPGSession" where
  "session_append s rv gv bv =
     \<lparr>buf_r = deque_append (buf_r s) rv,
      buf_g = deque_append (buf_g s) gv,
      buf_b = deque_append (buf_b s) bv\<rparr>"

text \<open>\<open>PPGSession.__len__\<close> is the length of the red buffer.\<close>

definition session_len :: "PPGSession \<Rightarrow> nat" where
  "session_len s = length (buf_r s)"

text \<open>Appending a sequence of samples, one \<open>append\<close> call each, in order.\<close>

fun session_appends :: "PPGSession \<Rightarrow> (real \<times> real \<times> real) list \<Rightarrow> PPGSession" where
  "session_appends s [] = s"
| "session_appends s ((rv, gv, bv) # rest) = session_appends (session_append s rv gv bv) rest"

section \<open>ppg.py: forehead extraction\<close>

text \<open>
  A frame is an \<open>H \<times> W \<times> 3\<close> array of \<open>uint8\<close> in BGR order, as \<open>cv2.imdecode\<close> with
  \<open>IMREAD_COLOR\<close> returns it: its shape and the pixel at (row, column). A face bounding
  box is a dict from the keys \<open>x\<close>, \<open>y\<close>, \<open>w\<close>, \<open>h\<close> to integer pixel coordinates, or
  \<open>None\<close>.
\<close>

type_synonym pixel = "8 word \<times> 8 word \<times> 8 word"

record frame =
  height :: nat
  width :: nat
  pixel_at :: "nat \<Rightarrow> nat \<Rightarrow> pixel"

type_synonym bbox = "(string \<times> int) list"

definition chan_b :: "pixel \<Rightarrow> real" where
  "chan_b p = real (unat (fst p))"

definition chan_g :: "pixel \<Rightarrow> real" where
  "chan_g p = real (unat (fst (snd p)))"

definition chan_r :: "pixel \<Rightarrow> real" where
  "chan_r p = real (unat (snd (snd p)))"

text \<open>\<open>dict.get(key, default)\<close>.\<close>

definition dict_get :: "bbox \<Rightarrow> string \<Rightarrow> int \<Rightarrow> int" where
  "dict_get d k dflt = (case map_of d k of None \<Rightarrow> dflt | Some v \<Rightarrow> v)"

definition FOREHEAD_FRAC_Y :: real where
  "FOREHEAD_FRAC_Y = 0.15"

definition FOREHEAD_FRAC_X :: "real \<times> real" where
  "FOREHEAD_FRAC_X = (0.25, 0.75)"

text \<open>
  The box the ROI is cut from, \<open>(fx, fy, fw, fh)\<close>: a \<open>None\<close> or empty dict is falsy and
  gives the whole frame.
\<close>

definition face_box :: "frame \<Rightarrow> bbox option \<Rightarrow> int \<times> int \<times> int \<times> int" where
  "face_box img face_bbox =
     (let h_img = int (height img); w_img = int (width img) in
      case face_bbox of
        None \<Rightarrow> (0, 0, w_img, h_img)
      | Some d \<Rightarrow>
          if d = [] then (0, 0, w_img, h_img)
          else (dict_get d ''x'' 0, dict_get d ''y'' 0,
                dict_get d ''w'' w_img, dict_get d ''h'' h_img))"

text \<open>The ROI \<open>(roi_y1, roi_y2, roi_x1, roi_x2)\<close> after the clamping to the frame.\<close>

definition forehead_roi :: "frame \<Rightarrow> bbox option \<Rightarrow> int \<times> int \<times> int \<times> int" where
  "forehead_roi img face_bbox =
     (let h_img = int (height img); w_img = int (width img);
          (fx, fy, fw, fh) = face_box img face_bbox;
          roi_y1 = fy;
          roi_y2 = fy + max 1 (py_int (real_of_int fh * FOREHEAD_FRAC_Y));
          roi_x1 = fx + py_int (real_of_int fw * fst FOREHEAD_FRAC_X);
          roi_x2 = fx + py_int (real_of_int fw * snd FOREHEAD_FRAC_X)
      in (max 0 roi_y1, min h_img roi_y2, max 0 roi_x1, min w_img roi_x2))"

text \<open>
  The slice \<open>img[y1:y2, x1:x2]\<close> for bounds inside the frame, row by row, as the list of
  its pixels.
\<close>

definition roi_pixels :: "frame \<Rightarrow> int \<Rightarrow> int \<Rightarrow> int \<Rightarrow> int \<Rightarrow> pixel list" where
  "roi_pixels img y1 y2 x1 x2 =
     concat (map (\<lambda>y. map (\<lambda>x. pixel_at img (nat y) (nat x)) [x1..x2 - 1]) [y1..y2 - 1])"

text \<open>
  \<open>_extract_forehead_rgb\<close>: \<open>None\<close> when the clamped ROI is empty, otherwise the mean of
  each channel over the ROI, returned in the order R, G, B.
\<close>

definition extract_forehead_rgb :: "frame \<Rightarrow> bbox option \<Rightarrow> (real \<times> real \<times> real) option" where
  "extract_forehead_rgb img face_bbox =
     (let (roi_y1, roi_y2, roi_x1, roi_x2) = forehead_roi img face_bbox in
      if roi_y2 \<le> roi_y1 \<or> roi_x2 \<le> roi_x1 then None
      else
        let roi = roi_pixels img roi_y1 roi_y2 roi_x1 roi_x2;
            bv = np_mean (map chan_b roi);
            gv = np_mean (map chan_g roi);
            rv = np_mean (map chan_r roi)
        in Some (rv, gv, bv))"

section \<open>ppg.py: the CHROM score\<close>

definition FPS :: real where
  "FPS = 30"

definition MIN_FRAMES :: nat where
  "MIN_FRAMES = 60"

text \<open>The divisor of the channel normalisation, \<open>c.mean() + 1e-6\<close>.\<close>

definition norm_divisor :: "real list \<Rightarrow> real" where
  "norm_divisor c = np_mean c + 1 / 10 ^ 6"

definition normalise :: "real list \<Rightarrow> real list" where
  "normalise c = map (\<lambda>v. v / norm_divisor c) c"

text \<open>\<open>X = 3 * r_n - 2 * g_n\<close> and \<open>Y = 1.5 * r_n + g_n - 1.5 * b_n\<close>, elementwise.\<close>

definition chrom_X :: "PPGSession \<Rightarrow> real list" where
  "chrom_X s =
     map (\<lambda>(rn, gn). 3 * rn - 2 * gn) (zip (normalise (buf_r s)) (normalise (buf_g s)))"

definition chrom_Y :: "PPGSession \<Rightarrow> real list" where
  "chrom_Y s =
     map (\<lambda>(rn, gn, bn). 1.5 * rn + gn - 1.5 * bn)
       (zip (normalise (buf_r s)) (zip (normalise (buf_g s)) (normalise (buf_b s))))"

text \<open>The divisor of \<open>alpha\<close>, \<open>Y.std() + 1e-9\<close>.\<close>

definition alpha_divisor :: "PPGSession \<Rightarrow> real" where
  "alpha_divisor s = np_std (chrom_Y s) + 1 / 10 ^ 9"

definition alpha :: "PPGSession \<Rightarrow> real" where
  "alpha s = np_std (chrom_X s) / alpha_divisor s"

definition ppg_signal :: "PPGSession \<Rightarrow> real list" where
  "ppg_signal s = map (\<lambda>(x, y). x - alpha s * y) (zip (chrom_X s) (chrom_Y s))"

text \<open>The band mask over the bins and the two sums of bin magnitudes.\<close>

definition band_mask :: "PPGSession \<Rightarrow> bool list" where
  "band_mask s =
     map (\<lambda>f. 0.67 \<le> f \<and> f \<le> 3.33) (rfftfreq (length (ppg_signal s)) (1.0 / FPS))"

definition power_in :: "PPGSession \<Rightarrow> real" where
  "power_in s = sum_list (map cmod (masked (rfft (ppg_signal s)) (band_mask s)))"

definition power_all :: "PPGSession \<Rightarrow> real" where
  "power_all s = sum_list (map cmod (rfft (ppg_signal s))) + 1 / 10 ^ 9"

definition snr :: "PPGSession \<Rightarrow> real" where
  "snr s = power_in s / power_all s"

definition compute_score :: "PPGSession \<Rightarrow> real" where
  "compute_score s = np_clip (1.0 - snr s * 3) 0.0 1.0"

section \<open>ppg.py: the analyzer\<close>

text \<open>
  \<open>PPGAnalyzer._sessions\<close> is a dict from session ids to sessions. The source mutates the
  dict and the session objects in place; here the dict is passed in and returned.
\<close>

type_synonym sessions = "string \<rightharpoonup> PPGSession"

definition get_session :: "sessions \<Rightarrow> string \<Rightarrow> PPGSession \<times> sessions" where
  "get_session st sid =
     (case st sid of
        None \<Rightarrow> (new_session, st(sid \<mapsto> new_session))
      | Some s \<Rightarrow> (s, st))"

definition analyze :: "sessions \<Rightarrow> frame \<Rightarrow> bbox option \<Rightarrow> string \<Rightarrow> real \<times> sessions" where
  "analyze st img_bgr face_bbox session_id =
     (let (session, st1) = get_session st session_id in
      case extract_forehead_rgb img_bgr face_bbox of
        None \<Rightarrow> (0.5, st1)
      | Some (rv, gv, bv) \<Rightarrow>
          let session' = session_append session rv gv bv;
              st2 = st1(session_id \<mapsto> session')
          in if session_len session' < MIN_FRAMES then (0.0, st2)
             else (compute_score session', st2))"

text \<open>
  A history of updates: the calls \<open>analyze(img, bbox, sid)\<close> of a list, in order, from a
  given dict; the scores returned and the dict left behind.
\<close>

type_synonym update = "frame \<times> bbox option \<times> string"

fun analyze_all :: "sessions \<Rightarrow> update list \<Rightarrow> real list \<times> sessions" where
  "analyze_all st [] = ([], st)"
| "analyze_all st ((img, bb, sid) # rest) =
     (let (sc, st1) = analyze st img bb sid;
          (scs, st2) = analyze_all st1 rest
      in (sc # scs, st2))"

section \<open>main.py: fusion, classification and the two endpoints\<close>

text \<open>Python's \<open>round(x, ndigits)\<close> on a float: to the nearest multiple of
  \<open>10 ^ - ndigits\<close>, a tie going to the even one.\<close>

definition py_round :: "real \<Rightarrow> nat \<Rightarrow> real" where
  "py_round x ndigits =
     (let y = x * 10 ^ ndigits; f = \<lfloor>y\<rfloor>; d = y - of_int f
      in of_int (if d < 1 / 2 then f else if 1 / 2 < d then f + 1
                 else if even f then f else f + 1) / 10 ^ ndigits)"

text \<open>The weighted fusion of \<open>analyze_frame\<close> (step 4 of its body).\<close>

definition combine :: "real \<Rightarrow> real \<Rightarrow> real \<Rightarrow> real" where
  "combine deep_conf ppg_score temp_score =
     0.60 * deep_conf + 0.20 * ppg_score + 0.20 * temp_score"

definition classify :: "real \<Rightarrow> string \<times> string" where
  "classify score =
     (if score < 0.30 then (''real'', ''safe'')
      else if score < 0.70 then (''suspicious'', ''warning'')
      else (''fake'', ''danger''))"

text \<open>
  The request and response schemas. Field names that two schemas share are prefixed here:
  \<open>BatchFrameRequest.session_id\<close> is \<open>batch_session_id\<close>, \<open>AnalysisResult.frame_number\<close>
  is \<open>res_frame_number\<close>, \<open>BatchAnalysisResult.session_id\<close> is \<open>res_session_id\<close>. Of
  \<open>AnalysisResult\<close>, \<open>inference_time_ms\<close> (a wall-clock measurement) and the model name
  inside \<open>detail\<close> are left out; \<open>detail["face_bbox"]\<close> is \<open>detail_face_bbox\<close>.
\<close>

record FrameRequest =
  frame_b64 :: string
  frame_number :: int
  timestamp_ms :: int
  session_id :: string

record BatchFrameRequest =
  frames :: "FrameRequest list"
  batch_session_id :: string

record AnalysisResult =
  res_frame_number :: int
  deepfake_confidence :: real
  ppg_score :: real
  temporal_score :: real
  combined_score :: real
  classification :: string
  threat_level :: string
  detail_face_bbox :: "bbox option"

record BatchAnalysisResult =
  results :: "AnalysisResult list"
  res_session_id :: string
  avg_combined_score :: real
  overall_verdict :: string

datatype http_exception = HTTPException nat string

text \<open>
  The collaborators of the endpoints that are not part of the scoring code, taken as
  parameters: the image decoder under \<open>_decode_frame\<close> (\<open>base64.b64decode\<close> followed by
  \<open>cv2.imdecode\<close>: the message of the error, or the image), \<open>preprocess_frame\<close> (the face
  crop, if any, and the bounding box), the visual model's \<open>predict\<close>, and the \<open>update\<close> of
  the temporal checker over its own state \<open>'t\<close>. They are taken to return.
\<close>

record ('face, 't) collaborators =
  decode_image :: "string \<Rightarrow> string + frame"
  preprocess_frame :: "frame \<Rightarrow> 'face option \<times> bbox option"
  predict :: "'face \<Rightarrow> real"
  temporal_update :: "'t \<Rightarrow> string \<Rightarrow> real \<Rightarrow> int \<Rightarrow> real \<times> 't"

text \<open>The two singletons that carry state between requests.\<close>

record 't server =
  ppg_analyzer :: sessions
  temporal_checker :: 't

text \<open>\<open>_decode_frame\<close>: with a comma in the string, \<open>b64.split(",")[1]\<close> is decoded.\<close>

definition strip_data_uri :: "string \<Rightarrow> string" where
  "strip_data_uri b64 =
     (if CHR '','' \<in> set b64
      then takeWhile (\<lambda>c. c \<noteq> CHR '','') (tl (dropWhile (\<lambda>c. c \<noteq> CHR '','') b64))
      else b64)"

definition decode_frame :: "('face, 't) collaborators \<Rightarrow> string \<Rightarrow> http_exception + frame" where
  "decode_frame env b64 =
     (case decode_image env (strip_data_uri b64) of
        Inl e \<Rightarrow> Inl (HTTPException 400 (''Invalid image data: '' @ e))
      | Inr img \<Rightarrow> Inr img)"

definition analyze_frame ::
  "('face, 't) collaborators \<Rightarrow> 't server \<Rightarrow> FrameRequest
     \<Rightarrow> (http_exception + AnalysisResult) \<times> 't server" where
  "analyze_frame env st req =
     (case decode_frame env (frame_b64 req) of
        Inl e \<Rightarrow> (Inl e, st)
      | Inr img \<Rightarrow>
          let (face, face_bbox) = preprocess_frame env img in
          (case face of
            None \<Rightarrow> (Inl (HTTPException 422 ''No face detected in frame''), st)
          | Some fc \<Rightarrow>
              let deep_conf = predict env fc;
                  (ppg, sessions') = analyze (ppg_analyzer st) img face_bbox (session_id req);
                  (temp_score, checker') =
                     temporal_update env (temporal_checker st) (session_id req) deep_conf
                       (frame_number req);
                  combined = combine deep_conf ppg temp_score;
                  (cls, threat) = classify combined
              in (Inr \<lparr>res_frame_number = frame_number req,
                       deepfake_confidence = py_round deep_conf 4,
                       ppg_score = py_round ppg 4,
                       temporal_score = py_round temp_score 4,
                       combined_score = py_round combined 4,
                       classification = cls,
                       threat_level = threat,
                       detail_face_bbox = face_bbox\<rparr>,
                  \<lparr>ppg_analyzer = sessions', temporal_checker = checker'\<rparr>)))"

text \<open>
  The loop of \<open>analyze_batch\<close>: each frame's \<open>session_id\<close> is overwritten, the frame is
  analysed, and its result is kept unless \<open>analyze_frame\<close> raised an \<open>HTTPException\<close>.
\<close>

fun batch_loop ::
  "('face, 't) collaborators \<Rightarrow> 't server \<Rightarrow> string \<Rightarrow> FrameRequest list
     \<Rightarrow> AnalysisResult list \<times> 't server" where
  "batch_loop env st sid [] = ([], st)"
| "batch_loop env st sid (frame_req # rest) =
     (case analyze_frame env st (frame_req\<lparr>session_id := sid\<rparr>) of
        (Inr r, st1) \<Rightarrow> (let (rs, st2) = batch_loop env st1 sid rest in (r # rs, st2))
      | (Inl e, st1) \<Rightarrow> batch_loop env st1 sid rest)"

text \<open>
  \<open>analyze_batch\<close>. The average \<open>sum(r.combined_score for r in results) / len(results)\<close>
  is a float64 computation, and its last bit (which depends on the order and the
  compensation of the interpreter's summation) decides the fourth decimal of the rounded
  average at a tie and the verdict at a threshold. The float the interpreter computes for
  \<open>sum(xs) / len(xs)\<close> is therefore a parameter \<open>float_mean\<close> of the model; the exact mean
  is one instance of it. \<open>round(avg, 4)\<close> is correctly rounded from the exact value of the
  float \<open>avg\<close>, which is what \<open>py_round\<close> computes from that value.
\<close>

definition analyze_batch ::
  "(real list \<Rightarrow> real) \<Rightarrow> ('face, 't) collaborators \<Rightarrow> 't server \<Rightarrow> BatchFrameRequest
     \<Rightarrow> (http_exception + BatchAnalysisResult) \<times> 't server" where
  "analyze_batch float_mean env st req =
     (let (rs, st1) = batch_loop env st (batch_session_id req) (frames req) in
      if rs = [] then (Inl (HTTPException 422 ''No faces detected in any frame''), st1)
      else
        let avg = float_mean (map combined_score rs);
            (cls, verdict_threat) = classify avg
        in (Inr \<lparr>results = rs,
                 res_session_id = batch_session_id req,
                 avg_combined_score = py_round avg 4,
                 overall_verdict = verdict_threat\<rparr>, st1))"

section \<open>Example data\<close>

text \<open>A run of distinct colour samples, the \<open>i\<close>-th being \<open>(i, i + 1, i + 2)\<close>.\<close>

definition ramp :: "nat \<Rightarrow> (real \<times> real \<times> real) list" where
  "ramp n = map (\<lambda>i. (real i, real i + 1, real i + 2)) [0..<n]"

text \<open>Frames of one colour, a session just below the minimum history, and a short history.\<close>

definition flat_frame :: "nat \<Rightarrow> nat \<Rightarrow> pixel \<Rightarrow> frame" where
  "flat_frame h w p = \<lparr>height = h, width = w, pixel_at = (\<lambda>y x. p)\<rparr>"

definition sample_frame :: frame where
  "sample_frame = flat_frame 10 10 (10, 20, 30)"

definition empty_frame :: frame where
  "empty_frame = flat_frame 0 0 (0, 0, 0)"

definition short_session :: PPGSession where
  "short_session = \<lparr>buf_r = replicate 58 7, buf_g = replicate 58 8, buf_b = replicate 58 9\<rparr>"

definition sample_history :: "update list" where
  "sample_history =
     [(sample_frame, None, ''cam''), (empty_frame, None, ''door''),
      (sample_frame, Some [(''x'', 0), (''y'', 0), (''w'', 8), (''h'', 8)], ''cam'')]"

section \<open>Invariants of the session store\<close>

text \<open>
  What every session of a store built by \<open>analyze\<close> satisfies: the three channels have one
  length, at most the capacity, and every sample is a mean of pixel values, so not negative.
\<close>

definition session_ok :: "PPGSession \<Rightarrow> bool" where
  "session_ok s \<longleftrightarrow>
     length (buf_r s) = length (buf_g s) \<and> length (buf_g s) = length (buf_b s)
   \<and> length (buf_r s) \<le> MAX_LEN
   \<and> (\<forall>v \<in> set (buf_r s) \<union> set (buf_g s) \<union> set (buf_b s). 0 \<le> v)"

definition sessions_ok :: "sessions \<Rightarrow> bool" where
  "sessions_ok st \<longleftrightarrow> (\<forall>sid s. st sid = Some s \<longrightarrow> session_ok s)"

section \<open>Histories seen from one session\<close>

text \<open>
  The updates of a history that name a given session id, and the scores the history
  returned for them.
\<close>

definition updates_of :: "string \<Rightarrow> update list \<Rightarrow> update list" where
  "updates_of sid ops = filter (\<lambda>(img, bb, t). t = sid) ops"

definition scores_of :: "string \<Rightarrow> update list \<Rightarrow> real list \<Rightarrow> real list" where
  "scores_of sid ops scs = map snd (filter (\<lambda>((img, bb, t), sc). t = sid) (zip ops scs))"

text \<open>Two cameras taking turns.\<close>

definition interleaved_history :: "update list" where
  "interleaved_history =
     [(sample_frame, None, ''cam''), (flat_frame 10 10 (1, 2, 3), None, ''door''),
      (empty_frame, None, ''door''), (sample_frame, None, ''cam'')]"

text \<open>A camera sending the same frame \<open>n\<close> times.\<close>

definition steady_history :: "nat \<Rightarrow> update list" where
  "steady_history n = replicate n (sample_frame, None, ''cam'')"

text \<open>
  Collaborators to run the endpoints with: a string other than \<open>bad\<close> decodes to a frame
  of one colour with two rows for each character of the string, a frame without rows has
  no face, the face is the number of rows and the visual confidence a twelfth of it; the
  temporal checker keeps no state and returns 0.
\<close>

definition demo_env :: "(nat, unit) collaborators" where
  "demo_env =
     \<lparr>decode_image =
        (\<lambda>s. if s = ''bad'' then Inl ''corrupt'' else Inr (flat_frame (2 * length s) 10 (10, 20, 30))),
      preprocess_frame = (\<lambda>img. (if height img = 0 then None else Some (height img), None)),
      predict = (\<lambda>fc. real fc / 12),
      temporal_update = (\<lambda>t sid c n. (0, t))\<rparr>"

definition demo_server :: "unit server" where
  "demo_server = \<lparr>ppg_analyzer = Map.empty, temporal_checker = ()\<rparr>"

definition demo_request :: "string \<Rightarrow> string \<Rightarrow> FrameRequest" where
  "demo_request b64 sid =
     \<lparr>frame_b64 = b64, frame_number = 0, timestamp_ms = 0, session_id = sid\<rparr>"

section \<open>Running frames one after the other\<close>

text \<open>
  What \<open>analyze_frame\<close> answers for each request of a list in turn, every request as it
  is, the state passing from one to the next: the list of the answers (a result, or the
  \<open>HTTPException\<close> raised) and the state left behind. The requests that produced a result
  are those whose answer is a result.
\<close>

fun run_frames ::
  "('face, 't) collaborators \<Rightarrow> 't server \<Rightarrow> FrameRequest list
     \<Rightarrow> (http_exception + AnalysisResult) list \<times> 't server" where
  "run_frames env st [] = ([], st)"
| "run_frames env st (req # rest) =
     (fst (analyze_frame env st req) # fst (run_frames env (snd (analyze_frame env st req)) rest),
      snd (run_frames env (snd (analyze_frame env st req)) rest))"

fun produced :: "(http_exception + AnalysisResult) list \<Rightarrow> AnalysisResult list" where
  "produced [] = []"
| "produced (Inr r # rest) = r # produced rest"
| "produced (Inl e # rest) = produced rest"

text \<open>The arithmetic mean of a list of numbers, in exact arithmetic.\<close>

definition exact_mean :: "real list \<Rightarrow> real" where
  "exact_mean xs = sum_list xs / real (length xs)"

text \<open>A batch of five frames, three of which show a face, and a batch of two that show none.\<close>

definition demo_batch :: BatchFrameRequest where
  "demo_batch =
     \<lparr>frames = [demo_request ''a'' ''one'', demo_request [] ''two'', demo_request ''a'' ''three'',
                demo_request ''ab'' ''four'', demo_request ''bad'' ''five''],
      batch_session_id = ''cam''\<rparr>"


section \<open>The forehead region and the score pipeline in the words of the specification\<close>

text \<open>
  The region as the specification words it: the top 15% of the height of the box, the band
  from 25% to 75% of its width, clamped to the frame; extraction fails when the clamped
  region has no width or no height.
\<close>

definition spec_forehead_roi :: "frame \<Rightarrow> bbox option \<Rightarrow> int \<times> int \<times> int \<times> int" where
  "spec_forehead_roi img face_bbox =
     (let (fx, fy, fw, fh) = face_box img face_bbox
      in (max 0 fy,
          min (int (height img)) (fy + py_int (real_of_int fh * 0.15)),
          max 0 (fx + py_int (real_of_int fw * 0.25)),
          min (int (width img)) (fx + py_int (real_of_int fw * 0.75))))"

definition spec_extraction_fails :: "frame \<Rightarrow> bbox option \<Rightarrow> bool" where
  "spec_extraction_fails img face_bbox =
     (let (y1, y2, x1, x2) = spec_forehead_roi img face_bbox in y2 \<le> y1 \<or> x2 \<le> x1)"

text \<open>The mean of a channel over the pixels of rows \<open>y1 .. y2 - 1\<close> and columns \<open>x1 .. x2 - 1\<close>.\<close>

definition region_mean :: "(pixel \<Rightarrow> real) \<Rightarrow> frame \<Rightarrow> int \<Rightarrow> int \<Rightarrow> int \<Rightarrow> int \<Rightarrow> real" where
  "region_mean chan img y1 y2 x1 x2 =
     (\<Sum>y \<in> {y1..<y2}. \<Sum>x \<in> {x1..<x2}. chan (pixel_at img (nat y) (nat x)))
       / real_of_int ((y2 - y1) * (x2 - x1))"

text \<open>A face box four pixels high in the corner of a frame.\<close>

definition tiny_box :: bbox where
  "tiny_box = [(''x'', 0), (''y'', 0), (''w'', 8), (''h'', 4)]"

section \<open>The score pipeline in the words of the specification\<close>

text \<open>
  The steps (a) to (f) of the specification over three series \<open>R\<close>, \<open>G\<close>, \<open>B\<close> of one
  length \<open>n\<close>, sample by sample: each channel divided by its own mean plus epsilon, the
  projections \<open>X\<close> and \<open>Y\<close>, \<open>alpha\<close> and the pulse \<open>P\<close>, the bins \<open>0 .. n div 2\<close> of the
  discrete Fourier transform of \<open>P\<close> with bin \<open>i\<close> at \<open>i * 30 / n\<close> Hz, the ratio of the
  magnitudes in the band to all magnitudes plus epsilon, and the clamped score. The
  epsilons are those of the code (1e-6 for the means, 1e-9 for the two others) and the
  standard deviation is that of the population.
\<close>

definition spec_mean :: "real list \<Rightarrow> real" where
  "spec_mean c = (\<Sum>i<length c. c ! i) / real (length c)"

definition spec_stddev :: "(nat \<Rightarrow> real) \<Rightarrow> nat \<Rightarrow> real" where
  "spec_stddev x n = sqrt ((\<Sum>i<n. (x i - (\<Sum>j<n. x j) / real n)\<^sup>2) / real n)"

definition spec_normalised :: "real list \<Rightarrow> nat \<Rightarrow> real" where
  "spec_normalised c i = c ! i / (spec_mean c + 1 / 10 ^ 6)"

definition spec_X :: "real list \<Rightarrow> real list \<Rightarrow> nat \<Rightarrow> real" where
  "spec_X R G i = 3 * spec_normalised R i - 2 * spec_normalised G i"

definition spec_Y :: "real list \<Rightarrow> real list \<Rightarrow> real list \<Rightarrow> nat \<Rightarrow> real" where
  "spec_Y R G B i = 1.5 * spec_normalised R i + spec_normalised G i - 1.5 * spec_normalised B i"

definition spec_alpha :: "real list \<Rightarrow> real list \<Rightarrow> real list \<Rightarrow> real" where
  "spec_alpha R G B =
     spec_stddev (spec_X R G) (length R) / (spec_stddev (spec_Y R G B) (length R) + 1 / 10 ^ 9)"

definition spec_pulse :: "real list \<Rightarrow> real list \<Rightarrow> real list \<Rightarrow> nat \<Rightarrow> real" where
  "spec_pulse R G B i = spec_X R G i - spec_alpha R G B * spec_Y R G B i"

definition spec_bin :: "real list \<Rightarrow> real list \<Rightarrow> real list \<Rightarrow> nat \<Rightarrow> complex" where
  "spec_bin R G B k =
     (\<Sum>m<length R. complex_of_real (spec_pulse R G B m)
                      * cis (- (2 * pi * real k * real m / real (length R))))"

definition spec_freq :: "nat \<Rightarrow> nat \<Rightarrow> real" where
  "spec_freq n i = real i * 30 / real n"

definition spec_snr :: "real list \<Rightarrow> real list \<Rightarrow> real list \<Rightarrow> real" where
  "spec_snr R G B =
     (\<Sum>i \<in> {i \<in> {..length R div 2}. 0.67 \<le> spec_freq (length R) i \<and> spec_freq (length R) i \<le> 3.33}.
          cmod (spec_bin R G B i))
       / ((\<Sum>i\<le>length R div 2. cmod (spec_bin R G B i)) + 1 / 10 ^ 9)"

definition spec_ppg_score :: "real list \<Rightarrow> real list \<Rightarrow> real list \<Rightarrow> real" where
  "spec_ppg_score R G B = max 0 (min 1 (1 - 3 * spec_snr R G B))"

section \<open>The colour buffer is a bounded FIFO\<close>

lemma deque_append_length_le:
  "length xs \<le> MAX_LEN \<Longrightarrow> length (deque_append xs x) \<le> MAX_LEN"
  by (auto simp: deque_append_def Let_def)

lemma deque_append_at_capacity:
  "length zs = MAX_LEN \<Longrightarrow> deque_append zs y = tl (zs @ [y])"
  by (simp add: deque_append_def Let_def)

lemma deque_append_below_capacity:
  "length zs < MAX_LEN \<Longrightarrow> deque_append zs y = zs @ [y]"
  by (simp add: deque_append_def Let_def)

lemma foldl_deque_append:
  "length xs \<le> MAX_LEN \<Longrightarrow>
   foldl deque_append xs ys = drop (length (xs @ ys) - MAX_LEN) (xs @ ys)"
proof (induction ys rule: rev_induct)
  case Nil
  then show ?case by simp
next
  case (snoc y ys)
  define zs where "zs = xs @ ys"
  define ds where "ds = drop (length zs - MAX_LEN) zs"
  have ih: "foldl deque_append xs ys = ds"
    using snoc by (simp add: zs_def ds_def)
  have goal: "deque_append ds y = drop (length (zs @ [y]) - MAX_LEN) (zs @ [y])"
  proof (cases "MAX_LEN \<le> length zs")
    case True
    then have len: "length ds = MAX_LEN" by (simp add: ds_def)
    have "deque_append ds y = tl (ds @ [y])"
      using len by (rule deque_append_at_capacity)
    also have "ds @ [y] = drop (length zs - MAX_LEN) (zs @ [y])"
      by (simp add: ds_def)
    also have "tl \<dots> = drop (Suc (length zs - MAX_LEN)) (zs @ [y])"
      by (simp only: tl_drop drop_Suc)
    also have "Suc (length zs - MAX_LEN) = length (zs @ [y]) - MAX_LEN"
      using True by simp
    finally show ?thesis .
  next
    case False
    then have "length ds < MAX_LEN" and "ds = zs" by (simp_all add: ds_def)
    then show ?thesis using False by (simp add: deque_append_below_capacity)
  qed
  have "foldl deque_append xs (ys @ [y]) = deque_append ds y"
    using ih by simp
  also note goal
  finally show ?case by (simp add: zs_def)
qed

lemma session_appends_r:
  "buf_r (session_appends s xs) = foldl deque_append (buf_r s) (map fst xs)"
  by (induction s xs rule: session_appends.induct) (simp_all add: session_append_def)

lemma session_appends_g:
  "buf_g (session_appends s xs) = foldl deque_append (buf_g s) (map (\<lambda>t. fst (snd t)) xs)"
  by (induction s xs rule: session_appends.induct) (simp_all add: session_append_def)

lemma session_appends_b:
  "buf_b (session_appends s xs) = foldl deque_append (buf_b s) (map (\<lambda>t. snd (snd t)) xs)"
  by (induction s xs rule: session_appends.induct) (simp_all add: session_append_def)

lemma foldl_deque_append_full:
  assumes "length xs \<le> MAX_LEN" and "MAX_LEN < length ys"
  shows "foldl deque_append xs ys = drop (length ys - MAX_LEN) ys"
  using assms by (simp add: foldl_deque_append)

lemma foldl_deque_append_length:
  "length xs \<le> MAX_LEN \<Longrightarrow> length (foldl deque_append xs ys) \<le> MAX_LEN"
  by (simp add: foldl_deque_append)

text \<open>
  C7. Appending more than 300 samples to a session (whose buffers, being deques of
  capacity 300, hold at most 300 items) leaves exactly the 300 most recent samples in each
  channel, in insertion order, and the length of the session is 300; after every prefix of
  the insertions no buffer is longer than 300.
\<close>

theorem color_buffer_fifo:
  assumes "length (buf_r s) \<le> 300" and "length (buf_g s) \<le> 300"
    and "length (buf_b s) \<le> 300" and "300 < length xs"
  shows "buf_r (session_appends s xs) = map fst (drop (length xs - 300) xs)
       \<and> buf_g (session_appends s xs) = map (\<lambda>t. fst (snd t)) (drop (length xs - 300) xs)
       \<and> buf_b (session_appends s xs) = map (\<lambda>t. snd (snd t)) (drop (length xs - 300) xs)
       \<and> session_len (session_appends s xs) = 300
       \<and> (\<forall>k \<le> length xs.
            length (buf_r (session_appends s (take k xs))) \<le> 300
          \<and> length (buf_g (session_appends s (take k xs))) \<le> 300
          \<and> length (buf_b (session_appends s (take k xs))) \<le> 300)"
proof -
  have m: "MAX_LEN = 300" by (simp add: MAX_LEN_def)
  have r: "buf_r (session_appends s xs) = map fst (drop (length xs - 300) xs)"
    using assms foldl_deque_append_full [of "buf_r s" "map fst xs"]
    by (simp add: session_appends_r m drop_map)
  have g: "buf_g (session_appends s xs) = map (\<lambda>t. fst (snd t)) (drop (length xs - 300) xs)"
    using assms foldl_deque_append_full [of "buf_g s" "map (\<lambda>t. fst (snd t)) xs"]
    by (simp add: session_appends_g m drop_map)
  have b: "buf_b (session_appends s xs) = map (\<lambda>t. snd (snd t)) (drop (length xs - 300) xs)"
    using assms foldl_deque_append_full [of "buf_b s" "map (\<lambda>t. snd (snd t)) xs"]
    by (simp add: session_appends_b m drop_map)
  have l: "session_len (session_appends s xs) = 300"
    using assms by (simp add: session_len_def r)
  have k: "\<forall>k \<le> length xs.
            length (buf_r (session_appends s (take k xs))) \<le> 300
          \<and> length (buf_g (session_appends s (take k xs))) \<le> 300
          \<and> length (buf_b (session_appends s (take k xs))) \<le> 300"
    using assms foldl_deque_append_length [of "buf_r s"]
      foldl_deque_append_length [of "buf_g s"] foldl_deque_append_length [of "buf_b s"]
    by (simp add: session_appends_r session_appends_g session_appends_b m)
  from r g b l k show ?thesis by blast
qed

theorem color_buffer_fifo_witness:
  "length (buf_r new_session) \<le> 300 \<and> 300 < length (ramp 301)
   \<and> buf_r (session_appends new_session (ramp 301)) = map fst (drop 1 (ramp 301))
   \<and> session_len (session_appends new_session (ramp 301)) = 300"
  using color_buffer_fifo [of new_session "ramp 301"]
  by (simp add: new_session_def ramp_def)


section \<open>Forehead extraction on frames of one colour\<close>

lemma roi_sample_10: "forehead_roi (flat_frame 10 10 p) None = (0, 1, 2, 7)"
  by (simp add: forehead_roi_def face_box_def py_int_def FOREHEAD_FRAC_Y_def FOREHEAD_FRAC_X_def flat_frame_def)

lemma roi_sample_100: "forehead_roi (flat_frame 100 100 p) (Some [(''x'', 10), (''y'', 20), (''w'', 40), (''h'', 40)]) = (20, 26, 20, 40)"
  by (simp add: forehead_roi_def face_box_def py_int_def FOREHEAD_FRAC_Y_def FOREHEAD_FRAC_X_def flat_frame_def dict_get_def)

lemma np_mean_const:
  assumes "xs \<noteq> []" and "\<forall>x \<in> set xs. x = c"
  shows "np_mean xs = c"
proof -
  have "xs = replicate (length xs) c"
    using assms(2) by (simp add: replicate_length_same)
  then have "sum_list xs = real (length xs) * c"
    by (metis sum_list_replicate of_nat_mult mult.commute semiring_1_class.of_nat_simps(1) mult_of_nat_commute)
  then show ?thesis using assms(1) by (simp add: np_mean_def)
qed

lemma roi_pixels_flat:
  "set (roi_pixels (flat_frame h w p) y1 y2 x1 x2) \<subseteq> {p}"
  by (auto simp: roi_pixels_def flat_frame_def)

lemma roi_pixels_nonempty:
  "y1 < y2 \<Longrightarrow> x1 < x2 \<Longrightarrow> roi_pixels img y1 y2 x1 x2 \<noteq> []"
  by (auto simp: roi_pixels_def)

lemma extract_flat:
  "extract_forehead_rgb (flat_frame h w p) bb =
     (case forehead_roi (flat_frame h w p) bb of (y1, y2, x1, x2) \<Rightarrow>
        if y2 \<le> y1 \<or> x2 \<le> x1 then None else Some (chan_r p, chan_g p, chan_b p))"
proof -
  obtain y1 y2 x1 x2 where roi: "forehead_roi (flat_frame h w p) bb = (y1, y2, x1, x2)"
    by (metis prod_cases4)
  show ?thesis
  proof (cases "y2 \<le> y1 \<or> x2 \<le> x1")
    case True
    then show ?thesis by (auto simp: extract_forehead_rgb_def roi)
  next
    case False
    let ?px = "roi_pixels (flat_frame h w p) y1 y2 x1 x2"
    have ne: "?px \<noteq> []" using False by (simp add: roi_pixels_nonempty)
    have all: "\<forall>q \<in> set ?px. q = p" using roi_pixels_flat by blast
    have "np_mean (map chan_r ?px) = chan_r p" "np_mean (map chan_g ?px) = chan_g p"
      "np_mean (map chan_b ?px) = chan_b p"
      using ne all by (auto intro!: np_mean_const)
    then show ?thesis using False by (simp add: extract_forehead_rgb_def roi Let_def)
  qed
qed

lemma extract_sample_frame: "extract_forehead_rgb sample_frame None = Some (30, 20, 10)"
  by (simp add: sample_frame_def extract_flat roi_sample_10 chan_r_def chan_g_def chan_b_def)

lemma roi_empty_frame: "forehead_roi (flat_frame 0 0 p) None = (0, 0, 0, 0)"
  by (simp add: forehead_roi_def face_box_def py_int_def flat_frame_def)

lemma extract_empty_frame: "extract_forehead_rgb empty_frame None = None"
  by (simp add: empty_frame_def extract_flat roi_empty_frame)

section \<open>The update operation\<close>

lemma analyze_fail:
  "extract_forehead_rgb img bb = None \<Longrightarrow>
   analyze st img bb sid = (0.5, snd (get_session st sid))"
  by (simp add: analyze_def split: prod.splits)

lemma analyze_ok:
  "extract_forehead_rgb img bb = Some (rv, gv, bv) \<Longrightarrow>
   analyze st img bb sid =
     (if session_len (session_append (fst (get_session st sid)) rv gv bv) < MIN_FRAMES
      then 0 else compute_score (session_append (fst (get_session st sid)) rv gv bv),
      (snd (get_session st sid))(sid \<mapsto> session_append (fst (get_session st sid)) rv gv bv))"
  by (simp add: analyze_def Let_def split: prod.splits)

lemma get_session_lookup:
  "snd (get_session st sid) sid = Some (fst (get_session st sid))"
  by (simp add: get_session_def split: option.splits)

lemma get_session_other:
  "t \<noteq> sid \<Longrightarrow> snd (get_session st sid) t = st t"
  by (simp add: get_session_def split: option.splits)

lemma get_session_present:
  "st sid = Some s \<Longrightarrow> get_session st sid = (s, st)"
  by (simp add: get_session_def)

lemma get_session_again:
  "get_session (snd (get_session st sid)) sid = (fst (get_session st sid), snd (get_session st sid))"
  by (simp add: get_session_def split: option.splits)

text \<open>
  C4. When forehead extraction fails, the update returns exactly 0.5 and leaves the store
  as the session lookup alone leaves it: the session of the call holds the same buffers as
  before (nothing is appended), every other session is untouched, and a store that already
  had the session is unchanged. When extraction succeeds and the session then holds fewer
  than 60 samples, the update returns exactly 0, whatever the buffers hold.
\<close>

theorem extraction_failure_and_short_history:
  "(extract_forehead_rgb img bb = None \<longrightarrow>
      fst (analyze st img bb sid) = 0.5
    \<and> snd (analyze st img bb sid) = snd (get_session st sid)
    \<and> fst (get_session (snd (analyze st img bb sid)) sid) = fst (get_session st sid)
    \<and> (\<forall>t. t \<noteq> sid \<longrightarrow> snd (analyze st img bb sid) t = st t)
    \<and> (st sid \<noteq> None \<longrightarrow> snd (analyze st img bb sid) = st))
 \<and> (\<forall>s'. extract_forehead_rgb img bb \<noteq> None
          \<and> snd (analyze st img bb sid) sid = Some s' \<and> session_len s' < 60
        \<longrightarrow> fst (analyze st img bb sid) = 0)"
proof (intro conjI impI allI)
  assume f: "extract_forehead_rgb img bb = None"
  show "fst (analyze st img bb sid) = 0.5" using f by (simp add: analyze_fail)
  show "snd (analyze st img bb sid) = snd (get_session st sid)" using f by (simp add: analyze_fail)
  show "fst (get_session (snd (analyze st img bb sid)) sid) = fst (get_session st sid)"
    using f by (simp add: analyze_fail get_session_again)
  show "snd (analyze st img bb sid) t = st t" if "t \<noteq> sid" for t
    using f that by (simp add: analyze_fail get_session_other)
  show "snd (analyze st img bb sid) = st" if "st sid \<noteq> None"
    using f that by (auto simp: analyze_fail get_session_present)
next
  fix s'
  assume a: "extract_forehead_rgb img bb \<noteq> None
          \<and> snd (analyze st img bb sid) sid = Some s' \<and> session_len s' < 60"
  then obtain rv gv bv where e: "extract_forehead_rgb img bb = Some (rv, gv, bv)"
    by (metis not_None_eq prod_cases3)
  have "s' = session_append (fst (get_session st sid)) rv gv bv"
    using a by (simp add: analyze_ok [OF e])
  then show "fst (analyze st img bb sid) = 0"
    using a by (simp add: analyze_ok [OF e] MIN_FRAMES_def)
qed

theorem extraction_failure_and_short_history_witness:
  "extract_forehead_rgb empty_frame None = None
 \<and> fst (analyze Map.empty empty_frame None ''cam'') = 0.5
 \<and> snd (analyze Map.empty empty_frame None ''cam'') = [''cam'' \<mapsto> new_session]
 \<and> snd (analyze [''cam'' \<mapsto> short_session] empty_frame None ''cam'') = [''cam'' \<mapsto> short_session]
 \<and> extract_forehead_rgb sample_frame None \<noteq> None
 \<and> snd (analyze [''cam'' \<mapsto> short_session] sample_frame None ''cam'') ''cam''
      = Some (session_append short_session 30 20 10)
 \<and> session_len (session_append short_session 30 20 10) < 60
 \<and> fst (analyze [''cam'' \<mapsto> short_session] sample_frame None ''cam'') = 0"
proof -
  note fail1 = extraction_failure_and_short_history [of empty_frame None Map.empty "''cam''"]
  note fail2 = extraction_failure_and_short_history
    [of empty_frame None "[''cam'' \<mapsto> short_session]" "''cam''"]
  note short = extraction_failure_and_short_history
    [of sample_frame None "[''cam'' \<mapsto> short_session]" "''cam''", THEN conjunct2, rule_format,
     of "session_append short_session 30 20 10"]
  have e: "extract_forehead_rgb sample_frame None \<noteq> None"
    by (simp add: extract_sample_frame)
  have upd: "snd (analyze [''cam'' \<mapsto> short_session] sample_frame None ''cam'') ''cam''
      = Some (session_append short_session 30 20 10)"
    by (simp add: analyze_ok [OF extract_sample_frame] get_session_def)
  have len: "session_len (session_append short_session 30 20 10) < 60"
    by (simp add: session_len_def session_append_def short_session_def deque_append_def MAX_LEN_def)
  have "fst (analyze [''cam'' \<mapsto> short_session] sample_frame None ''cam'') = 0"
    using short e upd len by blast
  moreover have "fst (analyze Map.empty empty_frame None ''cam'') = 0.5"
    "snd (analyze Map.empty empty_frame None ''cam'') = [''cam'' \<mapsto> new_session]"
    using fail1 extract_empty_frame by (simp_all add: get_session_def)
  moreover have "snd (analyze [''cam'' \<mapsto> short_session] empty_frame None ''cam'')
      = [''cam'' \<mapsto> short_session]"
    using fail2 extract_empty_frame by (simp add: get_session_def)
  ultimately show ?thesis using e upd len extract_empty_frame by blast
qed


section \<open>Reachable stores\<close>

lemma np_mean_nonneg: "(\<forall>x \<in> set xs. 0 \<le> x) \<Longrightarrow> 0 \<le> np_mean xs"
  by (simp add: np_mean_def sum_list_nonneg)

lemma chan_nonneg: "0 \<le> chan_r p" "0 \<le> chan_g p" "0 \<le> chan_b p"
  by (simp_all only: chan_r_def chan_g_def chan_b_def of_nat_0_le_iff)

lemma extract_nonneg:
  assumes "extract_forehead_rgb img bb = Some (rv, gv, bv)"
  shows "0 \<le> rv \<and> 0 \<le> gv \<and> 0 \<le> bv"
proof -
  obtain y1 y2 x1 x2 where roi: "forehead_roi img bb = (y1, y2, x1, x2)"
    by (metis prod_cases4)
  let ?px = "roi_pixels img y1 y2 x1 x2"
  have "rv = np_mean (map chan_r ?px)" "gv = np_mean (map chan_g ?px)"
    "bv = np_mean (map chan_b ?px)"
    using assms by (auto simp: extract_forehead_rgb_def roi Let_def split: if_splits)
  then show ?thesis
    by (auto intro!: np_mean_nonneg simp: chan_nonneg)
qed

lemma set_deque_append: "set (deque_append xs x) \<subseteq> insert x (set xs)"
proof -
  have "set (tl (xs @ [x])) \<subseteq> set (xs @ [x])" by (rule list.set_sel(2) [THEN subsetI]) simp
  then show ?thesis by (auto simp: deque_append_def Let_def)
qed

lemma length_deque_append:
  "length (deque_append xs x) = (if length xs < MAX_LEN then Suc (length xs) else length xs)"
  by (simp add: deque_append_def Let_def)

lemma session_ok_new: "session_ok new_session"
  by (simp add: session_ok_def new_session_def)

lemma session_ok_append:
  assumes "session_ok s" and "0 \<le> rv" and "0 \<le> gv" and "0 \<le> bv"
  shows "session_ok (session_append s rv gv bv)"
proof -
  have len: "length (buf_r s) = length (buf_g s)" "length (buf_g s) = length (buf_b s)"
    "length (buf_r s) \<le> MAX_LEN"
    using assms(1) by (simp_all add: session_ok_def)
  have nn: "\<forall>v \<in> set (buf_r s) \<union> set (buf_g s) \<union> set (buf_b s). 0 \<le> v"
    using assms(1) by (simp add: session_ok_def)
  have "\<forall>v \<in> set (deque_append (buf_r s) rv). 0 \<le> v"
    using nn assms(2) set_deque_append [of "buf_r s" rv] by auto
  moreover have "\<forall>v \<in> set (deque_append (buf_g s) gv). 0 \<le> v"
    using nn assms(3) set_deque_append [of "buf_g s" gv] by auto
  moreover have "\<forall>v \<in> set (deque_append (buf_b s) bv). 0 \<le> v"
    using nn assms(4) set_deque_append [of "buf_b s" bv] by auto
  ultimately show ?thesis
    using len by (auto simp: session_ok_def session_append_def length_deque_append)
qed

lemma get_session_ok:
  "sessions_ok st \<Longrightarrow> session_ok (fst (get_session st sid)) \<and> sessions_ok (snd (get_session st sid))"
  by (auto simp: sessions_ok_def get_session_def session_ok_new split: option.splits)

lemma sessions_ok_update:
  "sessions_ok st \<Longrightarrow> session_ok s \<Longrightarrow> sessions_ok (st(sid \<mapsto> s))"
  by (simp add: sessions_ok_def)

lemma analyze_sessions_ok:
  assumes "sessions_ok st"
  shows "sessions_ok (snd (analyze st img bb sid))"
proof (cases "extract_forehead_rgb img bb")
  case None
  then show ?thesis using assms by (simp add: analyze_fail get_session_ok)
next
  case (Some c)
  obtain rv gv bv where c: "c = (rv, gv, bv)" by (metis prod_cases3)
  have e: "extract_forehead_rgb img bb = Some (rv, gv, bv)" using Some c by simp
  have "session_ok (session_append (fst (get_session st sid)) rv gv bv)"
    using assms extract_nonneg [OF e] by (simp add: session_ok_append get_session_ok)
  then show ?thesis
    using assms by (simp add: analyze_ok [OF e] sessions_ok_update get_session_ok)
qed

lemma analyze_all_Cons:
  "analyze_all st ((img, bb, sid) # ops) =
     (fst (analyze st img bb sid) # fst (analyze_all (snd (analyze st img bb sid)) ops),
      snd (analyze_all (snd (analyze st img bb sid)) ops))"
  by (simp split: prod.splits)

lemma analyze_all_sessions_ok:
  "sessions_ok st \<Longrightarrow> sessions_ok (snd (analyze_all st ops))"
proof (induction ops arbitrary: st)
  case Nil
  then show ?case by simp
next
  case (Cons u ops)
  obtain img bb sid where u: "u = (img, bb, sid)" by (metis prod_cases3)
  have "sessions_ok (snd (analyze st img bb sid))"
    using Cons.prems by (rule analyze_sessions_ok)
  then have "sessions_ok (snd (analyze_all (snd (analyze st img bb sid)) ops))"
    by (rule Cons.IH)
  then show ?case by (simp only: u analyze_all_Cons snd_conv)
qed

lemma reachable_ok: "sessions_ok (snd (analyze_all Map.empty ops))"
  by (rule analyze_all_sessions_ok) (simp add: sessions_ok_def)

text \<open>
  C9. In every store reached from the empty one by a history of updates, the three channel
  buffers of a session have the same length, before and after a further update: a
  successful update appends its one sample to each of the three deques, a failed extraction
  leaves the session as it was, and the length of the session is that of each channel.
\<close>

theorem channel_buffers_equal_length:
  "(let st = snd (analyze_all Map.empty ops);
        s = fst (get_session st sid);
        s' = fst (get_session (snd (analyze st img bb sid)) sid)
    in length (buf_r s) = length (buf_g s) \<and> length (buf_g s) = length (buf_b s)
     \<and> (extract_forehead_rgb img bb = None \<longrightarrow> s' = s)
     \<and> (\<forall>rv gv bv. extract_forehead_rgb img bb = Some (rv, gv, bv) \<longrightarrow>
            buf_r s' = deque_append (buf_r s) rv
          \<and> buf_g s' = deque_append (buf_g s) gv
          \<and> buf_b s' = deque_append (buf_b s) bv)
     \<and> length (buf_r s') = length (buf_g s') \<and> length (buf_g s') = length (buf_b s')
     \<and> session_len s' = length (buf_g s') \<and> session_len s' = length (buf_b s'))"
proof -
  define st where "st = snd (analyze_all Map.empty ops)"
  define s where "s = fst (get_session st sid)"
  define s' where "s' = fst (get_session (snd (analyze st img bb sid)) sid)"
  have ok: "sessions_ok st" unfolding st_def by (rule reachable_ok)
  then have s_ok: "session_ok s" by (simp add: s_def get_session_ok)
  have "sessions_ok (snd (analyze st img bb sid))" using ok by (rule analyze_sessions_ok)
  then have s'_ok: "session_ok s'" by (simp add: s'_def get_session_ok)
  have a: "length (buf_r s) = length (buf_g s) \<and> length (buf_g s) = length (buf_b s)"
    using s_ok by (simp add: session_ok_def)
  have b: "extract_forehead_rgb img bb = None \<longrightarrow> s' = s"
    by (simp add: s'_def s_def analyze_fail get_session_again)
  have c: "\<forall>rv gv bv. extract_forehead_rgb img bb = Some (rv, gv, bv) \<longrightarrow>
            buf_r s' = deque_append (buf_r s) rv
          \<and> buf_g s' = deque_append (buf_g s) gv
          \<and> buf_b s' = deque_append (buf_b s) bv"
    by (simp add: s'_def s_def analyze_ok get_session_present session_append_def)
  have d: "length (buf_r s') = length (buf_g s') \<and> length (buf_g s') = length (buf_b s')"
    using s'_ok by (simp add: session_ok_def)
  have e: "session_len s' = length (buf_g s') \<and> session_len s' = length (buf_b s')"
    using d by (simp add: session_len_def)
  from a b c d e show ?thesis
    unfolding Let_def st_def [symmetric] s_def [symmetric] s'_def [symmetric] by blast
qed

theorem channel_buffers_equal_length_witness:
  "(let st = snd (analyze_all Map.empty sample_history);
        s = fst (get_session st ''cam'');
        s' = fst (get_session (snd (analyze st sample_frame None ''cam'')) ''cam'')
    in extract_forehead_rgb sample_frame None = Some (30, 20, 10)
     \<and> buf_r s' = deque_append (buf_r s) 30
     \<and> buf_g s' = deque_append (buf_g s) 20
     \<and> buf_b s' = deque_append (buf_b s) 10
     \<and> length (buf_r s') = length (buf_g s') \<and> length (buf_g s') = length (buf_b s'))"
proof -
  note th = channel_buffers_equal_length [of sample_history "''cam''" sample_frame None,
      unfolded Let_def]
  from th have "\<forall>rv gv bv. extract_forehead_rgb sample_frame None = Some (rv, gv, bv) \<longrightarrow>
      buf_r (fst (get_session (snd (analyze (snd (analyze_all Map.empty sample_history))
         sample_frame None ''cam'')) ''cam''))
      = deque_append (buf_r (fst (get_session (snd (analyze_all Map.empty sample_history)) ''cam''))) rv
    \<and> buf_g (fst (get_session (snd (analyze (snd (analyze_all Map.empty sample_history))
         sample_frame None ''cam'')) ''cam''))
      = deque_append (buf_g (fst (get_session (snd (analyze_all Map.empty sample_history)) ''cam''))) gv
    \<and> buf_b (fst (get_session (snd (analyze (snd (analyze_all Map.empty sample_history))
         sample_frame None ''cam'')) ''cam''))
      = deque_append (buf_b (fst (get_session (snd (analyze_all Map.empty sample_history)) ''cam''))) bv"
    by blast
  from this [rule_format, OF extract_sample_frame] th extract_sample_frame
  show ?thesis unfolding Let_def by blast
qed


section \<open>Session isolation\<close>

lemma analyze_other:
  "t \<noteq> sid \<Longrightarrow> snd (analyze st img bb sid) t = st t"
  by (cases "extract_forehead_rgb img bb")
     (auto simp: analyze_fail analyze_ok get_session_other)

lemma get_session_fst_cong:
  "st1 sid = st2 sid \<Longrightarrow> fst (get_session st1 sid) = fst (get_session st2 sid)"
  by (simp add: get_session_def split: option.splits)

lemma analyze_local:
  assumes "st1 sid = st2 sid"
  shows "fst (analyze st1 img bb sid) = fst (analyze st2 img bb sid)
       \<and> snd (analyze st1 img bb sid) sid = snd (analyze st2 img bb sid) sid"
proof (cases "extract_forehead_rgb img bb")
  case None
  then show ?thesis
    using get_session_fst_cong [of st1 sid st2] assms by (simp add: analyze_fail get_session_lookup)
next
  case (Some c)
  obtain rv gv bv where "c = (rv, gv, bv)" by (metis prod_cases3)
  then have e: "extract_forehead_rgb img bb = Some (rv, gv, bv)" using Some by simp
  show ?thesis
    using get_session_fst_cong [of st1 sid st2] assms by (simp add: analyze_ok [OF e])
qed

lemma updates_of_Cons:
  "updates_of sid ((img, bb, t) # ops) =
     (if t = sid then (img, bb, t) # updates_of sid ops else updates_of sid ops)"
  by (simp add: updates_of_def)

lemma scores_of_Cons:
  "scores_of sid ((img, bb, t) # ops) (sc # scs) =
     (if t = sid then sc # scores_of sid ops scs else scores_of sid ops scs)"
  by (simp add: scores_of_def)

lemma analyze_all_projection:
  "st1 sid = st2 sid \<Longrightarrow>
     scores_of sid ops (fst (analyze_all st1 ops)) = fst (analyze_all st2 (updates_of sid ops))
   \<and> snd (analyze_all st1 ops) sid = snd (analyze_all st2 (updates_of sid ops)) sid"
proof (induction ops arbitrary: st1 st2)
  case Nil
  then show ?case by (simp add: scores_of_def updates_of_def)
next
  case (Cons u ops)
  obtain img bb t where u: "u = (img, bb, t)" by (metis prod_cases3)
  show ?case
  proof (cases "t = sid")
    case True
    have loc: "fst (analyze st1 img bb sid) = fst (analyze st2 img bb sid)"
      "snd (analyze st1 img bb sid) sid = snd (analyze st2 img bb sid) sid"
      using analyze_local [of st1 sid st2 img bb] Cons.prems by simp_all
    note ih = Cons.IH [of "snd (analyze st1 img bb sid)" "snd (analyze st2 img bb sid)"]
    show ?thesis
      using ih loc True
      by (simp add: u updates_of_Cons analyze_all_Cons scores_of_Cons del: analyze_all.simps)
  next
    case False
    have oth: "snd (analyze st1 img bb t) sid = st2 sid"
      using False Cons.prems by (simp add: analyze_other)
    note ih = Cons.IH [of "snd (analyze st1 img bb t)" st2]
    show ?thesis
      using ih oth False
      by (simp add: u updates_of_Cons analyze_all_Cons scores_of_Cons del: analyze_all.simps)
  qed
qed

text \<open>
  C8. Session lookup is idempotent: a second lookup of an id returns the session the first
  returned and leaves the store as it is; an empty session is created only for an id the
  store does not hold. An update for an id leaves every other session as it was. Hence,
  in any history of updates over any number of session ids, the scores returned for one
  id and the session it ends with are those of the history's updates for that id alone,
  run from any store that agrees on that id.
\<close>

theorem session_lookup_idempotent_and_isolated:
  "get_session (snd (get_session st sid)) sid = (fst (get_session st sid), snd (get_session st sid))
 \<and> (st sid = None \<longrightarrow> get_session st sid = (new_session, st(sid \<mapsto> new_session)))
 \<and> (\<forall>s. st sid = Some s \<longrightarrow> get_session st sid = (s, st))
 \<and> (\<forall>t. t \<noteq> sid \<longrightarrow> snd (analyze st img bb sid) t = st t)
 \<and> (\<forall>st'. st' sid = st sid \<longrightarrow>
        scores_of sid ops (fst (analyze_all st ops)) = fst (analyze_all st' (updates_of sid ops))
      \<and> snd (analyze_all st ops) sid = snd (analyze_all st' (updates_of sid ops)) sid)"
proof (intro conjI allI impI)
  show "get_session (snd (get_session st sid)) sid
        = (fst (get_session st sid), snd (get_session st sid))"
    by (rule get_session_again)
  show "get_session st sid = (new_session, st(sid \<mapsto> new_session))" if "st sid = None"
    using that by (simp add: get_session_def)
  show "get_session st sid = (s, st)" if "st sid = Some s" for s
    using that by (rule get_session_present)
  show "snd (analyze st img bb sid) t = st t" if "t \<noteq> sid" for t
    using that by (rule analyze_other)
  fix st' assume "st' sid = st sid"
  then have eq: "st sid = st' sid" by simp
  show "scores_of sid ops (fst (analyze_all st ops)) = fst (analyze_all st' (updates_of sid ops))"
    using analyze_all_projection [of st sid st' ops] eq by simp
  show "snd (analyze_all st ops) sid = snd (analyze_all st' (updates_of sid ops)) sid"
    using analyze_all_projection [of st sid st' ops] eq by simp
qed

theorem session_lookup_idempotent_and_isolated_witness:
  "''door'' \<noteq> ''cam''
 \<and> snd (analyze Map.empty sample_frame None ''cam'') ''door'' = None
 \<and> updates_of ''cam'' interleaved_history
      = [(sample_frame, None, ''cam''), (sample_frame, None, ''cam'')]
 \<and> scores_of ''cam'' interleaved_history (fst (analyze_all Map.empty interleaved_history))
      = fst (analyze_all Map.empty [(sample_frame, None, ''cam''), (sample_frame, None, ''cam'')])
 \<and> snd (analyze_all Map.empty interleaved_history) ''cam''
      = snd (analyze_all Map.empty [(sample_frame, None, ''cam''), (sample_frame, None, ''cam'')]) ''cam''"
proof -
  note th = session_lookup_idempotent_and_isolated
    [of Map.empty "''cam''" sample_frame None interleaved_history]
  note frame = th [THEN conjunct2, THEN conjunct2, THEN conjunct2, THEN conjunct1, rule_format,
      of "''door''"]
  note proj = th [THEN conjunct2, THEN conjunct2, THEN conjunct2, THEN conjunct2, rule_format,
      of Map.empty]
  have u: "updates_of ''cam'' interleaved_history
      = [(sample_frame, None, ''cam''), (sample_frame, None, ''cam'')]"
    by (simp add: updates_of_def interleaved_history_def)
  have ne: "''door'' \<noteq> ''cam''" by simp
  have a: "snd (analyze Map.empty sample_frame None ''cam'') ''door'' = None"
    using frame [OF ne] by simp
  have p: "scores_of ''cam'' interleaved_history (fst (analyze_all Map.empty interleaved_history))
          = fst (analyze_all Map.empty (updates_of ''cam'' interleaved_history))
      \<and> snd (analyze_all Map.empty interleaved_history) ''cam''
          = snd (analyze_all Map.empty (updates_of ''cam'' interleaved_history)) ''cam''"
    by (rule proj) simp
  note q = p [unfolded u]
  show ?thesis
    using ne a u q [THEN conjunct1] q [THEN conjunct2] by (intro conjI) assumption+
qed

section \<open>Scores are bounded and no divisor vanishes\<close>

lemma np_std_nonneg: "0 \<le> np_std xs"
proof -
  have "0 \<le> np_mean (map (\<lambda>x. (x - np_mean xs)\<^sup>2) xs)"
    by (rule np_mean_nonneg) simp
  then show ?thesis by (simp add: np_std_def)
qed

lemma alpha_divisor_pos: "0 < alpha_divisor s"
proof -
  have "0 \<le> np_std (chrom_Y s)" by (rule np_std_nonneg)
  then show ?thesis by (simp add: alpha_divisor_def)
qed

lemma power_all_pos: "0 < power_all s"
proof -
  have "0 \<le> sum_list (map cmod (rfft (ppg_signal s)))"
    by (rule sum_list_nonneg) auto
  then show ?thesis by (simp add: power_all_def)
qed

lemma norm_divisor_pos: "(\<forall>v \<in> set c. 0 \<le> v) \<Longrightarrow> 0 < norm_divisor c"
proof -
  assume "\<forall>v \<in> set c. 0 \<le> v"
  then have "0 \<le> np_mean c" by (rule np_mean_nonneg)
  then show ?thesis by (simp add: norm_divisor_def)
qed

lemma np_clip_unit: "0 \<le> np_clip x 0 1 \<and> np_clip x 0 1 \<le> 1"
  by (simp add: np_clip_def)

lemma compute_score_unit: "0 \<le> compute_score s \<and> compute_score s \<le> 1"
  using np_clip_unit [of "1 - snr s * 3"] by (simp add: compute_score_def)

lemma combine_unit:
  assumes "0 \<le> d" "d \<le> 1" "0 \<le> p" "p \<le> 1" "0 \<le> t" "t \<le> 1"
  shows "0 \<le> combine d p t \<and> combine d p t \<le> 1"
  using assms by (simp add: combine_def)

text \<open>
  C1. After any history of updates, a further update of any session with any frame and
  bounding box returns a score in [0, 1]: the fixed 0.5 when extraction fails, the fixed 0
  when the session then holds fewer than 60 samples, and otherwise the clamped value
  \<open>clip(1 - 3 * snr, 0, 1)\<close>, on which path every divisor of the computation (the three
  channel means plus 1e-6, the deviation of Y plus 1e-9, the sum of all bin magnitudes plus
  1e-9) is strictly positive, so that no division by zero can yield NaN or Infinity. The
  fused score of three inputs in [0, 1] is in [0, 1].
\<close>

theorem scores_in_unit_interval:
  "(let st = snd (analyze_all Map.empty ops);
        sc = fst (analyze st img bb sid);
        s' = fst (get_session (snd (analyze st img bb sid)) sid)
    in 0 \<le> sc \<and> sc \<le> 1
     \<and> (extract_forehead_rgb img bb = None \<longrightarrow> sc = 0.5)
     \<and> (extract_forehead_rgb img bb \<noteq> None \<and> session_len s' < 60 \<longrightarrow> sc = 0)
     \<and> (extract_forehead_rgb img bb \<noteq> None \<and> 60 \<le> session_len s' \<longrightarrow>
            sc = np_clip (1 - snr s' * 3) 0 1
          \<and> 0 < norm_divisor (buf_r s') \<and> 0 < norm_divisor (buf_g s')
          \<and> 0 < norm_divisor (buf_b s') \<and> 0 < alpha_divisor s' \<and> 0 < power_all s'))
 \<and> (0 \<le> d \<and> d \<le> 1 \<and> 0 \<le> p \<and> p \<le> 1 \<and> 0 \<le> t \<and> t \<le> 1
      \<longrightarrow> 0 \<le> combine d p t \<and> combine d p t \<le> 1)"
proof -
  define st where "st = snd (analyze_all Map.empty ops)"
  define sc where "sc = fst (analyze st img bb sid)"
  define s' where "s' = fst (get_session (snd (analyze st img bb sid)) sid)"
  have ok: "sessions_ok st" unfolding st_def by (rule reachable_ok)
  have "sessions_ok (snd (analyze st img bb sid))" using ok by (rule analyze_sessions_ok)
  then have s'_ok: "session_ok s'" by (simp add: s'_def get_session_ok)
  have fail: "extract_forehead_rgb img bb = None \<longrightarrow> sc = 0.5"
    by (simp add: sc_def analyze_fail)
  have succ: "sc = (if session_len s' < 60 then 0 else compute_score s')"
    if "extract_forehead_rgb img bb \<noteq> None"
  proof -
    from that obtain rv gv bv where e: "extract_forehead_rgb img bb = Some (rv, gv, bv)"
      by (metis not_None_eq prod_cases3)
    show ?thesis
      by (simp add: sc_def s'_def analyze_ok [OF e] get_session_present MIN_FRAMES_def)
  qed
  have short: "extract_forehead_rgb img bb \<noteq> None \<and> session_len s' < 60 \<longrightarrow> sc = 0"
    using succ by simp
  have long: "extract_forehead_rgb img bb \<noteq> None \<and> 60 \<le> session_len s' \<longrightarrow>
            sc = np_clip (1 - snr s' * 3) 0 1
          \<and> 0 < norm_divisor (buf_r s') \<and> 0 < norm_divisor (buf_g s')
          \<and> 0 < norm_divisor (buf_b s') \<and> 0 < alpha_divisor s' \<and> 0 < power_all s'"
    using succ s'_ok
    by (auto simp: compute_score_def session_ok_def alpha_divisor_pos power_all_pos
        intro!: norm_divisor_pos)
  have bound: "0 \<le> sc \<and> sc \<le> 1"
  proof (cases "extract_forehead_rgb img bb")
    case None
    then show ?thesis using fail by simp
  next
    case (Some c)
    then show ?thesis using succ compute_score_unit [of s'] by simp
  qed
  have fuse: "0 \<le> d \<and> d \<le> 1 \<and> 0 \<le> p \<and> p \<le> 1 \<and> 0 \<le> t \<and> t \<le> 1
      \<longrightarrow> 0 \<le> combine d p t \<and> combine d p t \<le> 1"
    using combine_unit by blast
  from bound fail short long fuse show ?thesis
    unfolding Let_def st_def [symmetric] sc_def [symmetric] s'_def [symmetric] by blast
qed

lemma analyze_all_replicate:
  assumes e: "extract_forehead_rgb img bb = Some (rv, gv, bv)"
  shows "fst (get_session (snd (analyze_all st (replicate n (img, bb, sid)))) sid)
       = session_appends (fst (get_session st sid)) (replicate n (rv, gv, bv))"
proof (induction n arbitrary: st)
  case 0
  then show ?case by simp
next
  case (Suc n)
  have step: "fst (get_session (snd (analyze st img bb sid)) sid)
      = session_append (fst (get_session st sid)) rv gv bv"
    by (simp add: analyze_ok [OF e] get_session_present)
  show ?case
    using Suc.IH [of "snd (analyze st img bb sid)"] step
    by (simp add: analyze_all_Cons del: analyze_all.simps)
qed

lemma length_foldl_deque_append:
  "length xs \<le> MAX_LEN \<Longrightarrow>
   length (foldl deque_append xs ys) = min MAX_LEN (length xs + length ys)"
  by (simp add: foldl_deque_append)

lemma session_len_appends_new:
  "session_len (session_appends new_session xs) = min MAX_LEN (length xs)"
  using length_foldl_deque_append [of "[]" "map fst xs"]
  by (simp add: session_len_def session_appends_r new_session_def)

lemma session_len_append:
  "session_len (session_append s rv gv bv) =
     (if session_len s < MAX_LEN then Suc (session_len s) else session_len s)"
  by (simp add: session_len_def session_append_def length_deque_append)

lemma steady_session:
  "fst (get_session (snd (analyze (snd (analyze_all Map.empty (steady_history n)))
       sample_frame None ''cam'')) ''cam'')
   = session_append (session_appends new_session (replicate n (30, 20, 10))) 30 20 10"
proof -
  have "fst (get_session (snd (analyze_all Map.empty (steady_history n))) ''cam'')
      = session_appends new_session (replicate n (30, 20, 10))"
    unfolding steady_history_def
    using analyze_all_replicate [OF extract_sample_frame, of Map.empty n "''cam''"]
    by (simp add: get_session_def)
  then show ?thesis
    by (simp add: analyze_ok [OF extract_sample_frame] get_session_present)
qed

theorem scores_in_unit_interval_witness:
  "(let st = snd (analyze_all Map.empty (steady_history 59));
        sc = fst (analyze st sample_frame None ''cam'');
        s' = fst (get_session (snd (analyze st sample_frame None ''cam'')) ''cam'')
    in extract_forehead_rgb sample_frame None \<noteq> None \<and> 60 \<le> session_len s'
     \<and> sc = np_clip (1 - snr s' * 3) 0 1
     \<and> 0 < norm_divisor (buf_r s') \<and> 0 < norm_divisor (buf_g s')
     \<and> 0 < norm_divisor (buf_b s') \<and> 0 < alpha_divisor s' \<and> 0 < power_all s'
     \<and> 0 \<le> sc \<and> sc \<le> 1)
 \<and> fst (analyze Map.empty empty_frame None ''cam'') = 0.5
 \<and> 0 \<le> combine (1 / 2) 1 0 \<and> combine (1 / 2) 1 0 \<le> 1"
proof -
  note th = scores_in_unit_interval
    [of "steady_history 59" sample_frame None "''cam''" "1 / 2" 1 0, unfolded Let_def]
  note th0 = scores_in_unit_interval
    [of "[]" empty_frame None "''cam''" 0 0 0, unfolded Let_def]
  define s' where "s' = fst (get_session (snd (analyze (snd (analyze_all Map.empty
       (steady_history 59))) sample_frame None ''cam'')) ''cam'')"
  have e: "extract_forehead_rgb sample_frame None \<noteq> None"
    by (simp add: extract_sample_frame)
  have len: "60 \<le> session_len s'"
    unfolding s'_def steady_session
    by (simp add: session_len_append session_len_appends_new MAX_LEN_def)
  have half: "fst (analyze Map.empty empty_frame None ''cam'') = 0.5"
    using th0 extract_empty_frame by simp
  have fuse: "0 \<le> combine (1 / 2) 1 0 \<and> combine (1 / 2) 1 0 \<le> 1"
    using th by simp
  show ?thesis
    unfolding Let_def s'_def [symmetric]
    using th [folded s'_def] e len half fuse by blast
qed


section \<open>Fusion and classification\<close>

lemma classify_cases:
  "(classify s = (''real'', ''safe'') \<longleftrightarrow> s < 0.30)
 \<and> (classify s = (''suspicious'', ''warning'') \<longleftrightarrow> 0.30 \<le> s \<and> s < 0.70)
 \<and> (classify s = (''fake'', ''danger'') \<longleftrightarrow> 0.70 \<le> s)"
  by (simp add: classify_def)

lemma analyze_frame_ok:
  assumes "decode_frame env (frame_b64 req) = Inr img"
    and "preprocess_frame env img = (Some fc, bb)"
  shows "analyze_frame env st req =
     (let deep_conf = predict env fc;
          ppg = fst (analyze (ppg_analyzer st) img bb (session_id req));
          tmp = fst (temporal_update env (temporal_checker st) (session_id req) deep_conf
                  (frame_number req));
          combined = combine deep_conf ppg tmp
      in (Inr \<lparr>res_frame_number = frame_number req,
               deepfake_confidence = py_round deep_conf 4,
               ppg_score = py_round ppg 4,
               temporal_score = py_round tmp 4,
               combined_score = py_round combined 4,
               classification = fst (classify combined),
               threat_level = snd (classify combined),
               detail_face_bbox = bb\<rparr>,
          \<lparr>ppg_analyzer = snd (analyze (ppg_analyzer st) img bb (session_id req)),
           temporal_checker = snd (temporal_update env (temporal_checker st) (session_id req)
                  deep_conf (frame_number req))\<rparr>))"
  using assms by (simp add: analyze_frame_def Let_def split: prod.splits)

lemma analyze_frame_no_face:
  assumes "decode_frame env (frame_b64 req) = Inr img"
    and "preprocess_frame env img = (None, bb)"
  shows "analyze_frame env st req = (Inl (HTTPException 422 ''No face detected in frame''), st)"
  using assms by (simp add: analyze_frame_def)

lemma analyze_frame_bad_image:
  assumes "decode_frame env (frame_b64 req) = Inl e"
  shows "analyze_frame env st req = (Inl e, st)"
  using assms by (simp add: analyze_frame_def)

text \<open>
  C2. The fused value is \<open>0.60 * deep_conf + 0.20 * ppg_score + 0.20 * temporal_score\<close>
  for all real inputs; a score \<open>s\<close> is classified (real, safe) exactly when \<open>s < 0.30\<close>,
  (suspicious, warning) exactly when \<open>0.30 \<le> s < 0.70\<close> and (fake, danger) exactly when
  \<open>0.70 \<le> s\<close>, so 0.30 is suspicious and 0.70 is fake; and a frame that decodes and
  shows a face is answered with the classification of the fused value of its three scores.
\<close>

theorem fusion_and_classification:
  "combine d p t = 0.60 * d + 0.20 * p + 0.20 * t
 \<and> (classify s = (''real'', ''safe'') \<longleftrightarrow> s < 0.30)
 \<and> (classify s = (''suspicious'', ''warning'') \<longleftrightarrow> 0.30 \<le> s \<and> s < 0.70)
 \<and> (classify s = (''fake'', ''danger'') \<longleftrightarrow> 0.70 \<le> s)
 \<and> classify 0.30 = (''suspicious'', ''warning'')
 \<and> classify 0.70 = (''fake'', ''danger'')
 \<and> (\<forall>img fc bb.
       decode_frame env (frame_b64 req) = Inr img \<and> preprocess_frame env img = (Some fc, bb)
       \<longrightarrow> (\<exists>res st'. analyze_frame env st req = (Inr res, st')
             \<and> (classification res, threat_level res) =
                 classify (0.60 * predict env fc
                   + 0.20 * fst (analyze (ppg_analyzer st) img bb (session_id req))
                   + 0.20 * fst (temporal_update env (temporal_checker st) (session_id req)
                             (predict env fc) (frame_number req)))))"
proof (intro conjI allI impI)
  show "combine d p t = 0.60 * d + 0.20 * p + 0.20 * t" by (simp add: combine_def)
  show "classify s = (''real'', ''safe'') \<longleftrightarrow> s < 0.30" using classify_cases by blast
  show "classify s = (''suspicious'', ''warning'') \<longleftrightarrow> 0.30 \<le> s \<and> s < 0.70"
    using classify_cases by blast
  show "classify s = (''fake'', ''danger'') \<longleftrightarrow> 0.70 \<le> s" using classify_cases by blast
  show "classify 0.30 = (''suspicious'', ''warning'')" by (simp add: classify_def)
  show "classify 0.70 = (''fake'', ''danger'')" by (simp add: classify_def)
next
  fix img fc bb
  assume a: "decode_frame env (frame_b64 req) = Inr img \<and> preprocess_frame env img = (Some fc, bb)"
  then have d: "decode_frame env (frame_b64 req) = Inr img"
    and f: "preprocess_frame env img = (Some fc, bb)" by simp_all
  show "\<exists>res st'. analyze_frame env st req = (Inr res, st')
             \<and> (classification res, threat_level res) =
                 classify (0.60 * predict env fc
                   + 0.20 * fst (analyze (ppg_analyzer st) img bb (session_id req))
                   + 0.20 * fst (temporal_update env (temporal_checker st) (session_id req)
                             (predict env fc) (frame_number req)))"
    by (simp add: analyze_frame_ok [OF d f] Let_def combine_def)
qed

lemma decode_demo_a:
  "decode_frame demo_env (frame_b64 (demo_request ''a'' sid)) = Inr (flat_frame 2 10 (10, 20, 30))"
  by (simp add: decode_frame_def demo_env_def demo_request_def strip_data_uri_def)

lemma roi_demo_2: "forehead_roi (flat_frame 2 10 p) None = (0, 1, 2, 7)"
  by (simp add: forehead_roi_def face_box_def py_int_def FOREHEAD_FRAC_Y_def
      FOREHEAD_FRAC_X_def flat_frame_def)

lemma extract_demo_2:
  "extract_forehead_rgb (flat_frame 2 10 (10, 20, 30)) None = Some (30, 20, 10)"
  by (simp add: extract_flat roi_demo_2 chan_r_def chan_g_def chan_b_def)

theorem fusion_and_classification_witness:
  "decode_frame demo_env (frame_b64 (demo_request ''a'' ''cam'')) = Inr (flat_frame 2 10 (10, 20, 30))
 \<and> preprocess_frame demo_env (flat_frame 2 10 (10, 20, 30)) = (Some 2, None)
 \<and> (\<exists>res st'. analyze_frame demo_env demo_server (demo_request ''a'' ''cam'') = (Inr res, st')
       \<and> (classification res, threat_level res) = (''real'', ''safe''))"
proof -
  let ?img = "flat_frame 2 10 (10, 20, 30)"
  have d: "decode_frame demo_env (frame_b64 (demo_request ''a'' ''cam'')) = Inr ?img"
    by (rule decode_demo_a)
  have f: "preprocess_frame demo_env ?img = (Some 2, None)"
    by (simp add: demo_env_def flat_frame_def)
  note th = fusion_and_classification [of _ _ _ _ demo_env "demo_request ''a'' ''cam''" demo_server,
      THEN conjunct2, THEN conjunct2, THEN conjunct2, THEN conjunct2, THEN conjunct2,
      THEN conjunct2, rule_format, of ?img 2 None]
  have ppg0: "fst (analyze (ppg_analyzer demo_server) ?img None
       (session_id (demo_request ''a'' ''cam''))) = 0"
    by (simp add: analyze_ok [OF extract_demo_2] demo_server_def get_session_def
        session_append_def deque_append_def new_session_def session_len_def MAX_LEN_def
        MIN_FRAMES_def)
  have cls: "classify (0.60 * predict demo_env 2
       + 0.20 * fst (analyze (ppg_analyzer demo_server) ?img None
                      (session_id (demo_request ''a'' ''cam'')))
       + 0.20 * fst (temporal_update demo_env (temporal_checker demo_server)
                      (session_id (demo_request ''a'' ''cam'')) (predict demo_env 2)
                      (frame_number (demo_request ''a'' ''cam''))))
     = (''real'', ''safe'')"
    unfolding ppg0 by (simp add: demo_env_def classify_def)
  from th [OF conjI [OF d f]] have
    "\<exists>res st'. analyze_frame demo_env demo_server (demo_request ''a'' ''cam'') = (Inr res, st')
       \<and> (classification res, threat_level res) = (''real'', ''safe'')"
    unfolding cls .
  with d f show ?thesis by blast
qed

section \<open>The batch endpoint\<close>

lemma batch_loop_Cons:
  "batch_loop env st sid (f # rest) =
     (case fst (analyze_frame env st (f\<lparr>session_id := sid\<rparr>)) of
        Inr r \<Rightarrow> (r # fst (batch_loop env (snd (analyze_frame env st (f\<lparr>session_id := sid\<rparr>))) sid rest),
                  snd (batch_loop env (snd (analyze_frame env st (f\<lparr>session_id := sid\<rparr>))) sid rest))
      | Inl e \<Rightarrow> batch_loop env (snd (analyze_frame env st (f\<lparr>session_id := sid\<rparr>))) sid rest)"
  by (simp split: prod.splits sum.splits)

lemma batch_loop_run_frames:
  "fst (batch_loop env st sid fs)
     = produced (fst (run_frames env st (map (\<lambda>f. f\<lparr>session_id := sid\<rparr>) fs)))
 \<and> snd (batch_loop env st sid fs)
     = snd (run_frames env st (map (\<lambda>f. f\<lparr>session_id := sid\<rparr>) fs))"
proof (induction fs arbitrary: st)
  case Nil
  then show ?case by simp
next
  case (Cons f fs)
  show ?case
    by (cases "fst (analyze_frame env st (f\<lparr>session_id := sid\<rparr>))")
       (simp_all add: batch_loop_Cons Cons.IH del: batch_loop.simps)
qed

lemma batch_loop_ignores_frame_ids:
  "batch_loop env st sid (map (\<lambda>f. f\<lparr>session_id := g f\<rparr>) fs) = batch_loop env st sid fs"
proof (induction fs arbitrary: st)
  case Nil
  then show ?case by simp
next
  case (Cons f fs)
  show ?case
    by (cases "fst (analyze_frame env st (f\<lparr>session_id := sid\<rparr>))")
       (simp_all add: batch_loop_Cons Cons.IH del: batch_loop.simps)
qed

lemma analyze_frame_other_session:
  "t \<noteq> session_id req \<Longrightarrow>
   ppg_analyzer (snd (analyze_frame env st req)) t = ppg_analyzer st t"
proof (cases "decode_frame env (frame_b64 req)")
  case (Inl e)
  then show ?thesis by (simp add: analyze_frame_bad_image)
next
  case (Inr img)
  assume ne: "t \<noteq> session_id req"
  obtain face bb where p: "preprocess_frame env img = (face, bb)" by (cases "preprocess_frame env img")
  show ?thesis
  proof (cases face)
    case None
    then show ?thesis using Inr p by (simp add: analyze_frame_no_face)
  next
    case (Some fc)
    then show ?thesis
      using Inr p ne by (simp add: analyze_frame_ok Let_def analyze_other)
  qed
qed

lemma batch_loop_other_session:
  "t \<noteq> sid \<Longrightarrow> ppg_analyzer (snd (batch_loop env st sid fs)) t = ppg_analyzer st t"
proof (induction fs arbitrary: st)
  case Nil
  then show ?case by simp
next
  case (Cons f fs)
  have "ppg_analyzer (snd (analyze_frame env st (f\<lparr>session_id := sid\<rparr>))) t = ppg_analyzer st t"
    using Cons.prems by (simp add: analyze_frame_other_session)
  then show ?case
    using Cons.IH [OF Cons.prems, of "snd (analyze_frame env st (f\<lparr>session_id := sid\<rparr>))"]
    by (cases "fst (analyze_frame env st (f\<lparr>session_id := sid\<rparr>))")
       (simp_all add: batch_loop_Cons del: batch_loop.simps)
qed

lemma analyze_batch_split:
  "analyze_batch float_mean env st req =
     (if fst (batch_loop env st (batch_session_id req) (frames req)) = []
      then (Inl (HTTPException 422 ''No faces detected in any frame''),
            snd (batch_loop env st (batch_session_id req) (frames req)))
      else (Inr \<lparr>results = fst (batch_loop env st (batch_session_id req) (frames req)),
                 res_session_id = batch_session_id req,
                 avg_combined_score =
                   py_round (float_mean (map combined_score
                     (fst (batch_loop env st (batch_session_id req) (frames req))))) 4,
                 overall_verdict =
                   snd (classify (float_mean (map combined_score
                     (fst (batch_loop env st (batch_session_id req) (frames req))))))\<rparr>,
            snd (batch_loop env st (batch_session_id req) (frames req))))"
  by (simp add: analyze_batch_def Let_def split: prod.splits)


text \<open>
  C10. The batch operation overwrites the \<open>session_id\<close> of every frame with the id of the
  batch before analysing it. Whatever ids the frames carry, the answer and the state left
  behind are the same; the state the batch leaves is the state left by \<open>analyze_frame\<close>
  run on each frame in turn with its \<open>session_id\<close> set to the batch id, and the results of
  the batch are the results those runs produced; no PPG session other than the one of the
  batch id is touched. For each such frame that decodes and shows a face, the PPG update
  and the update of the temporal checker are the ones made under the batch id, and the
  scores of the result are their scores.
\<close>

theorem batch_overwrites_frame_session_ids:
  fixes env :: "('face, 't) collaborators"
  shows "(let run = run_frames env st (map (\<lambda>f. f\<lparr>session_id := sid\<rparr>) fs);
        ans = analyze_batch float_mean env st \<lparr>frames = fs, batch_session_id = sid\<rparr>
    in analyze_batch float_mean env st
         \<lparr>frames = map (\<lambda>f. f\<lparr>session_id := g f\<rparr>) fs, batch_session_id = sid\<rparr> = ans
     \<and> snd ans = snd run
     \<and> produced (fst run) = (case fst ans of Inr res \<Rightarrow> results res | Inl e \<Rightarrow> [])
     \<and> (\<forall>t. t \<noteq> sid \<longrightarrow> ppg_analyzer (snd ans) t = ppg_analyzer st t))
 \<and> (\<forall>st' f img fc bb.
       decode_frame env (frame_b64 f) = Inr img \<and> preprocess_frame env img = (Some fc, bb)
       \<longrightarrow> snd (analyze_frame env st' (f\<lparr>session_id := sid\<rparr>))
             = \<lparr>ppg_analyzer = snd (analyze (ppg_analyzer st') img bb sid),
                temporal_checker =
                  snd (temporal_update env (temporal_checker st') sid (predict env fc)
                         (frame_number f))\<rparr>
         \<and> \<not> isl (fst (analyze_frame env st' (f\<lparr>session_id := sid\<rparr>)))
         \<and> ppg_score (projr (fst (analyze_frame env st' (f\<lparr>session_id := sid\<rparr>))))
             = py_round (fst (analyze (ppg_analyzer st') img bb sid)) 4
         \<and> temporal_score (projr (fst (analyze_frame env st' (f\<lparr>session_id := sid\<rparr>))))
             = py_round (fst (temporal_update env (temporal_checker st') sid (predict env fc)
                         (frame_number f))) 4)"
proof -
  let ?req = "\<lparr>frames = fs, batch_session_id = sid\<rparr>"
  let ?run = "run_frames env st (map (\<lambda>f. f\<lparr>session_id := sid\<rparr>) fs)"
  let ?ans = "analyze_batch float_mean env st ?req"
  have a: "analyze_batch float_mean env st
         \<lparr>frames = map (\<lambda>f. f\<lparr>session_id := g f\<rparr>) fs, batch_session_id = sid\<rparr> = ?ans"
    by (simp add: analyze_batch_split batch_loop_ignores_frame_ids)
  have b: "snd ?ans = snd ?run"
    by (simp add: analyze_batch_split batch_loop_run_frames)
  have c: "produced (fst ?run) = (case fst ?ans of Inr res \<Rightarrow> results res | Inl e \<Rightarrow> [])"
    by (simp add: analyze_batch_split batch_loop_run_frames)
  have d: "\<forall>t. t \<noteq> sid \<longrightarrow> ppg_analyzer (snd ?ans) t = ppg_analyzer st t"
    by (simp add: analyze_batch_split batch_loop_other_session)
  have e: "\<forall>st' f img fc bb.
       decode_frame env (frame_b64 f) = Inr img \<and> preprocess_frame env img = (Some fc, bb)
       \<longrightarrow> snd (analyze_frame env st' (f\<lparr>session_id := sid\<rparr>))
             = \<lparr>ppg_analyzer = snd (analyze (ppg_analyzer st') img bb sid),
                temporal_checker =
                  snd (temporal_update env (temporal_checker st') sid (predict env fc)
                         (frame_number f))\<rparr>
         \<and> \<not> isl (fst (analyze_frame env st' (f\<lparr>session_id := sid\<rparr>)))
         \<and> ppg_score (projr (fst (analyze_frame env st' (f\<lparr>session_id := sid\<rparr>))))
             = py_round (fst (analyze (ppg_analyzer st') img bb sid)) 4
         \<and> temporal_score (projr (fst (analyze_frame env st' (f\<lparr>session_id := sid\<rparr>))))
             = py_round (fst (temporal_update env (temporal_checker st') sid (predict env fc)
                         (frame_number f))) 4"
  proof (intro allI impI)
    fix st' :: "'t server" and f :: FrameRequest and img fc bb
    assume h: "decode_frame env (frame_b64 f) = Inr img \<and> preprocess_frame env img = (Some fc, bb)"
    then have dec: "decode_frame env (frame_b64 (f\<lparr>session_id := sid\<rparr>)) = Inr img"
      and pre: "preprocess_frame env img = (Some fc, bb)" by simp_all
    show "snd (analyze_frame env st' (f\<lparr>session_id := sid\<rparr>))
             = \<lparr>ppg_analyzer = snd (analyze (ppg_analyzer st') img bb sid),
                temporal_checker =
                  snd (temporal_update env (temporal_checker st') sid (predict env fc)
                         (frame_number f))\<rparr>
         \<and> \<not> isl (fst (analyze_frame env st' (f\<lparr>session_id := sid\<rparr>)))
         \<and> ppg_score (projr (fst (analyze_frame env st' (f\<lparr>session_id := sid\<rparr>))))
             = py_round (fst (analyze (ppg_analyzer st') img bb sid)) 4
         \<and> temporal_score (projr (fst (analyze_frame env st' (f\<lparr>session_id := sid\<rparr>))))
             = py_round (fst (temporal_update env (temporal_checker st') sid (predict env fc)
                         (frame_number f))) 4"
      by (simp add: analyze_frame_ok [OF dec pre] Let_def)
  qed
  from a b c d e show ?thesis unfolding Let_def by blast
qed














lemma produced_error: "isl x \<Longrightarrow> produced (x # rest) = produced rest"
  by (cases x) simp_all





theorem batch_overwrites_frame_session_ids_witness:
  "''door'' \<noteq> ''cam''
 \<and> ppg_analyzer (snd (analyze_batch exact_mean demo_env demo_server demo_batch)) ''door'' = None
 \<and> analyze_batch exact_mean demo_env demo_server
      \<lparr>frames = map (\<lambda>f. f\<lparr>session_id := ''door''\<rparr>) (frames demo_batch),
       batch_session_id = ''cam''\<rparr>
    = analyze_batch exact_mean demo_env demo_server demo_batch
 \<and> snd (analyze_batch exact_mean demo_env demo_server demo_batch)
    = snd (run_frames demo_env demo_server
             (map (\<lambda>f. f\<lparr>session_id := ''cam''\<rparr>) (frames demo_batch)))
 \<and> decode_frame demo_env (frame_b64 (demo_request ''a'' ''one''))
    = Inr (flat_frame 2 10 (10, 20, 30))
 \<and> preprocess_frame demo_env (flat_frame 2 10 (10, 20, 30)) = (Some 2, None)
 \<and> snd (analyze_frame demo_env demo_server ((demo_request ''a'' ''one'')\<lparr>session_id := ''cam''\<rparr>))
    = \<lparr>ppg_analyzer = snd (analyze (ppg_analyzer demo_server) (flat_frame 2 10 (10, 20, 30))
                              None ''cam''),
       temporal_checker =
         snd (temporal_update demo_env (temporal_checker demo_server) ''cam''
                (predict demo_env 2) (frame_number (demo_request ''a'' ''one'')))\<rparr>"
proof -
  note th = batch_overwrites_frame_session_ids
    [of demo_env demo_server "''cam''" "frames demo_batch" exact_mean "\<lambda>f. ''door''",
     unfolded Let_def]
  have d: "\<lparr>frames = frames demo_batch, batch_session_id = ''cam''\<rparr> = demo_batch"
    by (simp add: demo_batch_def)
  note main = th [THEN conjunct1, unfolded d]
  note frame = th [THEN conjunct2, rule_format,
      of "demo_request ''a'' ''one''" "flat_frame 2 10 (10, 20, 30)" 2 None demo_server]
  have ne: "''door'' \<noteq> ''cam''" by simp
  have dec: "decode_frame demo_env (frame_b64 (demo_request ''a'' ''one''))
      = Inr (flat_frame 2 10 (10, 20, 30))"
    by (rule decode_demo_a)
  have pre: "preprocess_frame demo_env (flat_frame 2 10 (10, 20, 30)) = (Some 2, None)"
    by (simp add: demo_env_def flat_frame_def)
  note other = main [THEN conjunct2, THEN conjunct2, THEN conjunct2, rule_format, OF ne]
  have o: "ppg_analyzer (snd (analyze_batch exact_mean demo_env demo_server demo_batch)) ''door''
      = None"
    using other by (simp add: demo_server_def)
  note fr = frame [OF conjI [OF dec pre], THEN conjunct1]
  from ne o main [THEN conjunct1] main [THEN conjunct2, THEN conjunct1] dec pre fr
  show ?thesis by (intro conjI) assumption+
qed




section \<open>The forehead region\<close>

lemma sum_list_upto: "sum_list (map f [i..j]) = sum f {i..j}"
  by (simp add: sum_list_distinct_conv_sum_set)

lemma sum_list_concat_map: "sum_list (concat xss) = sum_list (map sum_list xss)"
  by (induction xss) simp_all

lemma sum_list_roi:
  "sum_list (map chan (roi_pixels img y1 y2 x1 x2))
     = (\<Sum>y \<in> {y1..<y2}. \<Sum>x \<in> {x1..<x2}. chan (pixel_at img (nat y) (nat x)))"
proof -
  have a: "{y1..y2 - 1} = {y1..<y2}" and b: "{x1..x2 - 1} = {x1..<x2}" by auto
  have "sum_list (map chan (roi_pixels img y1 y2 x1 x2))
      = sum_list (map (\<lambda>y. sum_list (map (\<lambda>x. chan (pixel_at img (nat y) (nat x))) [x1..x2 - 1]))
          [y1..y2 - 1])"
    by (simp add: roi_pixels_def map_concat sum_list_concat_map comp_def)
  also have "\<dots> = (\<Sum>y \<in> {y1..y2 - 1}. \<Sum>x \<in> {x1..x2 - 1}. chan (pixel_at img (nat y) (nat x)))"
    by (simp only: sum_list_upto)
  finally show ?thesis by (simp only: a b)
qed

lemma length_roi:
  "y1 < y2 \<Longrightarrow> x1 < x2 \<Longrightarrow>
   real (length (roi_pixels img y1 y2 x1 x2)) = real_of_int ((y2 - y1) * (x2 - x1))"
proof -
  assume y: "y1 < y2" and x: "x1 < x2"
  have "length (roi_pixels img y1 y2 x1 x2) = nat (y2 - y1) * nat (x2 - x1)"
    using y x by (simp add: roi_pixels_def length_concat comp_def sum_list_triv)
  also have "real \<dots> = real_of_int ((y2 - y1) * (x2 - x1))"
    using y x by simp
  finally show ?thesis .
qed

lemma np_mean_roi:
  "y1 < y2 \<Longrightarrow> x1 < x2 \<Longrightarrow>
   np_mean (map chan (roi_pixels img y1 y2 x1 x2)) = region_mean chan img y1 y2 x1 x2"
  using length_roi [of y1 y2 x1 x2 img]
  by (simp add: np_mean_def region_mean_def sum_list_roi)

lemma forehead_roi_eq:
  "forehead_roi img bb =
     (case face_box img bb of (fx, fy, fw, fh) \<Rightarrow>
        (max 0 fy,
         min (int (height img)) (fy + max 1 (py_int (real_of_int fh * 0.15))),
         max 0 (fx + py_int (real_of_int fw * 0.25)),
         min (int (width img)) (fx + py_int (real_of_int fw * 0.75))))"
  by (simp add: forehead_roi_def Let_def FOREHEAD_FRAC_Y_def FOREHEAD_FRAC_X_def
      split: prod.splits)

lemma extract_eq:
  assumes "forehead_roi img bb = (y1, y2, x1, x2)"
  shows "extract_forehead_rgb img bb =
     (if y2 \<le> y1 \<or> x2 \<le> x1 then None
      else Some (region_mean chan_r img y1 y2 x1 x2, region_mean chan_g img y1 y2 x1 x2,
                 region_mean chan_b img y1 y2 x1 x2))"
  using assms by (simp add: extract_forehead_rgb_def Let_def np_mean_roi)

lemma py_int_quarters:
  assumes "2 \<le> w"
  shows "py_int (real_of_int w * 0.25) < py_int (real_of_int w * 0.75)"
proof -
  have pos: "0 \<le> real_of_int w * 0.25" "0 \<le> real_of_int w * 0.75" using assms by simp_all
  have "real_of_int w * 0.25 + 1 \<le> real_of_int w * 0.75" using assms by simp
  then have "of_int (\<lfloor>real_of_int w * 0.25\<rfloor> + 1) \<le> real_of_int w * 0.75"
    using of_int_floor_le [of "real_of_int w * 0.25"] by simp
  then have "\<lfloor>real_of_int w * 0.25\<rfloor> + 1 \<le> \<lfloor>real_of_int w * 0.75\<rfloor>"
    by (simp only: le_floor_iff)
  then show ?thesis using pos by (simp add: py_int_def)
qed

lemma py_int_quarters_small:
  assumes "0 \<le> w" "w \<le> 1"
  shows "py_int (real_of_int w * 0.75) \<le> py_int (real_of_int w * 0.25)"
proof -
  have "w = 0 \<or> w = 1" using assms by auto
  then show ?thesis by (auto simp: py_int_def)
qed

lemma py_int_nonneg: "0 \<le> x \<Longrightarrow> 0 \<le> py_int x"
  by (simp add: py_int_def)

lemma py_int_le_self: "0 \<le> w \<Longrightarrow> py_int (real_of_int w * 0.75) \<le> w"
proof -
  assume w: "0 \<le> w"
  then have "real_of_int w * 0.75 \<le> real_of_int w" by simp
  then have "real_of_int w * 0.75 < of_int w + 1" by simp
  then have "\<lfloor>real_of_int w * 0.75\<rfloor> \<le> w" by (simp only: floor_le_iff)
  then show ?thesis using w by (simp add: py_int_def)
qed

lemma whole_frame_fails:
  assumes "bb = None \<or> bb = Some []"
  shows "extract_forehead_rgb img bb = None \<longleftrightarrow> height img = 0 \<or> width img \<le> 1"
proof -
  define h where "h = int (height img)"
  define w where "w = int (width img)"
  have fb: "face_box img bb = (0, 0, w, h)"
    using assms by (auto simp: face_box_def h_def w_def)
  define y2 where "y2 = min h (max 1 (py_int (real_of_int h * 0.15)))"
  define x1 where "x1 = py_int (real_of_int w * 0.25)"
  define x2 where "x2 = min w (py_int (real_of_int w * 0.75))"
  have w0: "0 \<le> w" and h0: "0 \<le> h" by (simp_all add: w_def h_def)
  have x1n: "0 \<le> x1" unfolding x1_def using w0 by (intro py_int_nonneg) simp
  have roi: "forehead_roi img bb = (0, y2, x1, x2)"
    using x1n by (simp add: forehead_roi_eq fb y2_def x1_def x2_def h_def w_def)
  have yy: "y2 \<le> 0 \<longleftrightarrow> h = 0" using h0 by (auto simp: y2_def)
  have x2e: "x2 = py_int (real_of_int w * 0.75)"
    unfolding x2_def using py_int_le_self [OF w0] by simp
  have xx: "x2 \<le> x1 \<longleftrightarrow> w \<le> 1"
  proof (cases "2 \<le> w")
    case True
    then show ?thesis using py_int_quarters [OF True] by (simp add: x2e x1_def)
  next
    case False
    then have "w \<le> 1" by simp
    then show ?thesis using py_int_quarters_small [OF w0] by (simp add: x2e x1_def)
  qed
  have "extract_forehead_rgb img bb = None \<longleftrightarrow> y2 \<le> 0 \<or> x2 \<le> x1"
    by (simp add: extract_eq [OF roi])
  then show ?thesis using yy xx by (simp add: h_def w_def)
qed

text \<open>
  C5, as amended. The region of interest spans, of the rows of the bounding box, the top
  15% of its height truncated to whole rows but never fewer than one row, and of its
  columns the band from 25% to 75% of its width, both clamped to the frame. Extraction
  fails exactly when the clamped region is empty (no row or no column is left); with an
  absent or empty bounding box the box is the whole frame, and extraction fails exactly
  when the frame has no rows or fewer than two columns. On success the region lies inside
  the frame and the result is the arithmetic mean of each channel over the pixels of the
  region, in the order R, G, B.
\<close>

theorem forehead_roi_and_channel_means:
  "(let (fx, fy, fw, fh) = face_box img bb;
        y1 = max 0 fy;
        y2 = min (int (height img)) (fy + max 1 (py_int (real_of_int fh * 0.15)));
        x1 = max 0 (fx + py_int (real_of_int fw * 0.25));
        x2 = min (int (width img)) (fx + py_int (real_of_int fw * 0.75))
    in forehead_roi img bb = (y1, y2, x1, x2)
     \<and> (extract_forehead_rgb img bb = None \<longleftrightarrow> y2 \<le> y1 \<or> x2 \<le> x1)
     \<and> (y1 < y2 \<and> x1 < x2 \<longrightarrow>
            0 \<le> y1 \<and> y2 \<le> int (height img) \<and> 0 \<le> x1 \<and> x2 \<le> int (width img)
          \<and> extract_forehead_rgb img bb
              = Some (region_mean chan_r img y1 y2 x1 x2, region_mean chan_g img y1 y2 x1 x2,
                      region_mean chan_b img y1 y2 x1 x2)))
 \<and> (bb = None \<or> bb = Some [] \<longrightarrow>
       face_box img bb = (0, 0, int (width img), int (height img))
     \<and> (extract_forehead_rgb img bb = None \<longleftrightarrow> height img = 0 \<or> width img \<le> 1))"
proof -
  obtain fx fy fw fh where fb: "face_box img bb = (fx, fy, fw, fh)" by (metis prod_cases4)
  define y1 where "y1 = max 0 fy"
  define y2 where "y2 = min (int (height img)) (fy + max 1 (py_int (real_of_int fh * 0.15)))"
  define x1 where "x1 = max 0 (fx + py_int (real_of_int fw * 0.25))"
  define x2 where "x2 = min (int (width img)) (fx + py_int (real_of_int fw * 0.75))"
  have roi: "forehead_roi img bb = (y1, y2, x1, x2)"
    by (simp add: forehead_roi_eq fb y1_def y2_def x1_def x2_def)
  have fail: "extract_forehead_rgb img bb = None \<longleftrightarrow> y2 \<le> y1 \<or> x2 \<le> x1"
    by (simp add: extract_eq [OF roi])
  have ok: "y1 < y2 \<and> x1 < x2 \<longrightarrow>
            0 \<le> y1 \<and> y2 \<le> int (height img) \<and> 0 \<le> x1 \<and> x2 \<le> int (width img)
          \<and> extract_forehead_rgb img bb
              = Some (region_mean chan_r img y1 y2 x1 x2, region_mean chan_g img y1 y2 x1 x2,
                      region_mean chan_b img y1 y2 x1 x2)"
    by (auto simp: extract_eq [OF roi] y1_def y2_def x1_def x2_def)
  have whole: "bb = None \<or> bb = Some [] \<longrightarrow>
       face_box img bb = (0, 0, int (width img), int (height img))
     \<and> (extract_forehead_rgb img bb = None \<longleftrightarrow> height img = 0 \<or> width img \<le> 1)"
    using whole_frame_fails [of bb img] by (auto simp: face_box_def)
  from roi fail ok whole show ?thesis
    unfolding fb Let_def prod.case y1_def [symmetric] y2_def [symmetric] x1_def [symmetric]
      x2_def [symmetric]
    by blast
qed

lemma face_box_tiny: "face_box sample_frame (Some tiny_box) = (0, 0, 8, 4)"
  by (simp add: face_box_def tiny_box_def dict_get_def)

lemma roi_tiny: "forehead_roi sample_frame (Some tiny_box) = (0, 1, 2, 6)"
  by (simp only: forehead_roi_eq face_box_tiny prod.case)
     (simp add: py_int_def sample_frame_def flat_frame_def)

theorem forehead_roi_and_channel_means_witness:
  "forehead_roi sample_frame (Some tiny_box) = (0, 1, 2, 6)
 \<and> extract_forehead_rgb sample_frame (Some tiny_box)
      = Some (region_mean chan_r sample_frame 0 1 2 6, region_mean chan_g sample_frame 0 1 2 6,
              region_mean chan_b sample_frame 0 1 2 6)
 \<and> face_box empty_frame None = (0, 0, int (width empty_frame), int (height empty_frame))
 \<and> height empty_frame = 0
 \<and> extract_forehead_rgb empty_frame None = None"
proof -
  note th = forehead_roi_and_channel_means [of sample_frame "Some tiny_box",
      unfolded face_box_tiny Let_def prod.case]
  note th0 = forehead_roi_and_channel_means [of empty_frame None, THEN conjunct2]
  have h: "height sample_frame = 10" "width sample_frame = 10"
    by (simp_all add: sample_frame_def flat_frame_def)
  have p: "py_int (real_of_int 4 * 0.15) = 0" "py_int (real_of_int 8 * 0.25) = 2"
    "py_int (real_of_int 8 * 0.75) = 6"
    by (simp_all add: py_int_def)
  note th' = th [unfolded h p]
  have a: "forehead_roi sample_frame (Some tiny_box) = (0, 1, 2, 6)"
    using th' by simp
  have b: "extract_forehead_rgb sample_frame (Some tiny_box)
      = Some (region_mean chan_r sample_frame 0 1 2 6, region_mean chan_g sample_frame 0 1 2 6,
              region_mean chan_b sample_frame 0 1 2 6)"
    using th' by simp
  have e: "height empty_frame = 0" by (simp add: empty_frame_def flat_frame_def)
  from th0 e have c: "face_box empty_frame None = (0, 0, int (width empty_frame), int (height empty_frame))"
    and d: "extract_forehead_rgb empty_frame None = None" by simp_all
  from a b c d e show ?thesis by blast
qed

text \<open>
  The claim as stated fails for a face box four pixels high: the top 15% of its height is
  less than one row, so the region of the claim has no height and extraction would fail,
  while the code takes one row and returns the means over it.
\<close>

theorem forehead_roi_counterexample:
  "spec_forehead_roi sample_frame (Some tiny_box) = (0, 0, 2, 6)
 \<and> spec_extraction_fails sample_frame (Some tiny_box)
 \<and> forehead_roi sample_frame (Some tiny_box) = (0, 1, 2, 6)
 \<and> extract_forehead_rgb sample_frame (Some tiny_box) = Some (30, 20, 10)"
proof -
  have s: "spec_forehead_roi sample_frame (Some tiny_box) = (0, 0, 2, 6)"
    by (simp only: spec_forehead_roi_def face_box_tiny prod.case Let_def)
       (simp add: py_int_def sample_frame_def flat_frame_def)
  have f: "spec_extraction_fails sample_frame (Some tiny_box)"
    by (simp add: spec_extraction_fails_def s)
  have e: "extract_forehead_rgb sample_frame (Some tiny_box) = Some (30, 20, 10)"
    using roi_tiny
    by (simp add: sample_frame_def extract_flat chan_r_def chan_g_def chan_b_def)
  from s f roi_tiny e show ?thesis by blast
qed

section \<open>The score is the CHROM pipeline of the specification\<close>

lemma sum_list_upt_sum: "sum_list (map f [0..<n]) = (\<Sum>i<n. f i)"
  by (simp add: interv_sum_list_conv_sum_set_nat atLeast0LessThan)

lemma map_via_index: "map f c = map (\<lambda>i. f (c ! i)) [0..<length c]"
  by (rule nth_equalityI) simp_all

lemma np_mean_spec: "np_mean c = spec_mean c"
  by (simp add: np_mean_def spec_mean_def sum_list_sum_nth atLeast0LessThan)

lemma np_mean_series: "np_mean (map x [0..<n]) = (\<Sum>i<n. x i) / real n"
  by (simp add: np_mean_def sum_list_upt_sum)

lemma np_std_series: "np_std (map x [0..<n]) = spec_stddev x n"
  by (simp add: np_std_def spec_stddev_def np_mean_series comp_def)

lemma normalise_spec: "normalise c = map (spec_normalised c) [0..<length c]"
  unfolding normalise_def norm_divisor_def np_mean_spec spec_normalised_def
  by (rule map_via_index)

lemma zip_series: "zip (map a [0..<n]) (map b [0..<n]) = map (\<lambda>i. (a i, b i)) [0..<n]"
  by (rule nth_equalityI) simp_all

lemma chrom_X_spec:
  assumes "length (buf_g s) = length (buf_r s)"
  shows "chrom_X s = map (spec_X (buf_r s) (buf_g s)) [0..<length (buf_r s)]"
  using assms
  by (simp add: chrom_X_def normalise_spec zip_series spec_X_def)

lemma chrom_Y_spec:
  assumes "length (buf_g s) = length (buf_r s)" and "length (buf_b s) = length (buf_r s)"
  shows "chrom_Y s = map (spec_Y (buf_r s) (buf_g s) (buf_b s)) [0..<length (buf_r s)]"
  using assms
  by (simp add: chrom_Y_def normalise_spec zip_series spec_Y_def)

lemma alpha_spec:
  assumes "length (buf_g s) = length (buf_r s)" and "length (buf_b s) = length (buf_r s)"
  shows "alpha s = spec_alpha (buf_r s) (buf_g s) (buf_b s)"
  by (simp add: alpha_def alpha_divisor_def chrom_X_spec [OF assms(1)] chrom_Y_spec [OF assms]
      np_std_series spec_alpha_def)

lemma ppg_signal_spec:
  assumes "length (buf_g s) = length (buf_r s)" and "length (buf_b s) = length (buf_r s)"
  shows "ppg_signal s = map (spec_pulse (buf_r s) (buf_g s) (buf_b s)) [0..<length (buf_r s)]"
  by (simp add: ppg_signal_def chrom_X_spec [OF assms(1)] chrom_Y_spec [OF assms]
      alpha_spec [OF assms] zip_series spec_pulse_def)

lemma dft_bin_series:
  "dft_bin (map p [0..<n]) k
     = (\<Sum>m<n. complex_of_real (p m) * cis (- (2 * pi * real k * real m / real n)))"
proof -
  have "dft_bin (map p [0..<n]) k
      = (\<Sum>m<n. complex_of_real (map p [0..<n] ! m) * cis (- (2 * pi * real k * real m / real n)))"
    by (simp add: dft_bin_def sum_list_upt_sum)
  also have "\<dots> = (\<Sum>m<n. complex_of_real (p m) * cis (- (2 * pi * real k * real m / real n)))"
    by (rule sum.cong) simp_all
  finally show ?thesis .
qed

lemma rfft_spec:
  assumes "length (buf_g s) = length (buf_r s)" and "length (buf_b s) = length (buf_r s)"
  shows "rfft (ppg_signal s)
       = map (spec_bin (buf_r s) (buf_g s) (buf_b s)) [0..<length (buf_r s) div 2 + 1]"
  by (simp add: rfft_def ppg_signal_spec [OF assms] dft_bin_series spec_bin_def)

lemma rfftfreq_spec: "rfftfreq n (1.0 / FPS) = map (spec_freq n) [0..<n div 2 + 1]"
  by (simp add: rfftfreq_def FPS_def spec_freq_def)

lemma masked_map: "masked (map f xs) (map q xs) = map f (filter q xs)"
  by (induction xs) (simp_all add: masked_def)

lemma upt_Suc_set: "set [0..<n + 1] = {..n}"
  by auto

lemma power_all_spec:
  assumes "length (buf_g s) = length (buf_r s)" and "length (buf_b s) = length (buf_r s)"
  shows "power_all s
       = (\<Sum>i\<le>length (buf_r s) div 2. cmod (spec_bin (buf_r s) (buf_g s) (buf_b s) i)) + 1 / 10 ^ 9"
proof -
  have "sum_list (map cmod (rfft (ppg_signal s)))
      = sum_list (map (\<lambda>i. cmod (spec_bin (buf_r s) (buf_g s) (buf_b s) i))
          [0..<length (buf_r s) div 2 + 1])"
    by (simp add: rfft_spec [OF assms] comp_def)
  also have "\<dots> = (\<Sum>i\<le>length (buf_r s) div 2. cmod (spec_bin (buf_r s) (buf_g s) (buf_b s) i))"
    by (simp only: sum_list_distinct_conv_sum_set distinct_upt upt_Suc_set)
  finally show ?thesis by (simp add: power_all_def)
qed

lemma power_in_spec:
  assumes "length (buf_g s) = length (buf_r s)" and "length (buf_b s) = length (buf_r s)"
  shows "power_in s
       = (\<Sum>i \<in> {i \<in> {..length (buf_r s) div 2}.
                   0.67 \<le> spec_freq (length (buf_r s)) i \<and> spec_freq (length (buf_r s)) i \<le> 3.33}.
            cmod (spec_bin (buf_r s) (buf_g s) (buf_b s) i))"
proof -
  let ?n = "length (buf_r s)"
  let ?is = "[0..<?n div 2 + 1]"
  let ?q = "\<lambda>i. 0.67 \<le> spec_freq ?n i \<and> spec_freq ?n i \<le> 3.33"
  let ?bin = "spec_bin (buf_r s) (buf_g s) (buf_b s)"
  have len: "length (ppg_signal s) = ?n"
    by (simp add: ppg_signal_spec [OF assms])
  have m: "band_mask s = map ?q ?is"
    by (simp only: band_mask_def len rfftfreq_spec map_map comp_def)
  have "power_in s = sum_list (map cmod (map ?bin (filter ?q ?is)))"
    by (simp only: power_in_def rfft_spec [OF assms] m masked_map)
  also have "\<dots> = sum_list (map (\<lambda>i. cmod (?bin i)) (filter ?q ?is))"
    by (simp add: comp_def)
  also have "\<dots> = (\<Sum>i \<in> set (filter ?q ?is). cmod (?bin i))"
    by (rule sum_list_distinct_conv_sum_set) simp
  also have "set (filter ?q ?is) = {i \<in> {..?n div 2}. ?q i}"
    by (simp only: set_filter upt_Suc_set)
  finally show ?thesis .
qed

lemma compute_score_spec:
  assumes "length (buf_g s) = length (buf_r s)" and "length (buf_b s) = length (buf_r s)"
  shows "compute_score s = spec_ppg_score (buf_r s) (buf_g s) (buf_b s)"
proof -
  have "snr s = spec_snr (buf_r s) (buf_g s) (buf_b s)"
    by (simp only: snr_def power_in_spec [OF assms] power_all_spec [OF assms] spec_snr_def)
  then show ?thesis
    by (simp add: compute_score_def spec_ppg_score_def np_clip_def mult.commute min.commute
        max.commute)
qed

text \<open>
  C3. After any history of updates, when an update extracts a sample and the session then
  holds \<open>n \<ge> 60\<close> samples, the three channels hold \<open>n\<close> samples each, the divisor of
  each channel normalisation is positive, and the score returned is the result of the
  pipeline of the specification on the three buffers: (a) each channel divided by its own
  mean plus 1e-6; (b) \<open>X = 3 R - 2 G\<close> and \<open>Y = 1.5 R + G - 1.5 B\<close> of the normalised
  channels; (c) \<open>alpha = stddev X / (stddev Y + 1e-9)\<close> and \<open>P = X - alpha Y\<close>; (d) the bins
  \<open>0 .. n div 2\<close> of the discrete Fourier transform of \<open>P\<close>, bin \<open>i\<close> at \<open>i * 30 / n\<close> Hz;
  (e) the sum of the magnitudes of the bins in [0.67, 3.33] Hz over the sum of all
  magnitudes plus 1e-9; (f) \<open>1 - 3 * SNR\<close> clamped to [0, 1].
\<close>

theorem ppg_score_is_chrom_pipeline:
  "(let st = snd (analyze_all Map.empty ops);
        sc = fst (analyze st img bb sid);
        s' = fst (get_session (snd (analyze st img bb sid)) sid)
    in extract_forehead_rgb img bb \<noteq> None \<and> 60 \<le> session_len s' \<longrightarrow>
         length (buf_r s') = session_len s' \<and> length (buf_g s') = session_len s'
       \<and> length (buf_b s') = session_len s'
       \<and> 0 < spec_mean (buf_r s') + 1 / 10 ^ 6
       \<and> 0 < spec_mean (buf_g s') + 1 / 10 ^ 6
       \<and> 0 < spec_mean (buf_b s') + 1 / 10 ^ 6
       \<and> sc = spec_ppg_score (buf_r s') (buf_g s') (buf_b s'))"
proof -
  define st where "st = snd (analyze_all Map.empty ops)"
  define sc where "sc = fst (analyze st img bb sid)"
  define s' where "s' = fst (get_session (snd (analyze st img bb sid)) sid)"
  have ok: "sessions_ok st" unfolding st_def by (rule reachable_ok)
  have "sessions_ok (snd (analyze st img bb sid))" using ok by (rule analyze_sessions_ok)
  then have s'_ok: "session_ok s'" by (simp add: s'_def get_session_ok)
  then have len: "length (buf_g s') = length (buf_r s')" "length (buf_b s') = length (buf_r s')"
    by (simp_all add: session_ok_def)
  have pos: "0 < spec_mean (buf_r s') + 1 / 10 ^ 6" "0 < spec_mean (buf_g s') + 1 / 10 ^ 6"
    "0 < spec_mean (buf_b s') + 1 / 10 ^ 6"
    using s'_ok norm_divisor_pos [of "buf_r s'"] norm_divisor_pos [of "buf_g s'"]
      norm_divisor_pos [of "buf_b s'"]
    by (simp_all add: session_ok_def norm_divisor_def np_mean_spec)
  have "sc = spec_ppg_score (buf_r s') (buf_g s') (buf_b s')"
    if e: "extract_forehead_rgb img bb \<noteq> None" and l: "60 \<le> session_len s'"
  proof -
    from e obtain rv gv bv where e': "extract_forehead_rgb img bb = Some (rv, gv, bv)"
      by (metis not_None_eq prod_cases3)
    have "sc = compute_score s'"
      using l by (simp add: sc_def s'_def analyze_ok [OF e'] get_session_present MIN_FRAMES_def)
    then show ?thesis by (simp add: compute_score_spec [OF len])
  qed
  then have "extract_forehead_rgb img bb \<noteq> None \<and> 60 \<le> session_len s' \<longrightarrow>
         length (buf_r s') = session_len s' \<and> length (buf_g s') = session_len s'
       \<and> length (buf_b s') = session_len s'
       \<and> 0 < spec_mean (buf_r s') + 1 / 10 ^ 6
       \<and> 0 < spec_mean (buf_g s') + 1 / 10 ^ 6
       \<and> 0 < spec_mean (buf_b s') + 1 / 10 ^ 6
       \<and> sc = spec_ppg_score (buf_r s') (buf_g s') (buf_b s')"
    using len pos by (simp add: session_len_def)
  then show ?thesis
    unfolding Let_def st_def [symmetric] sc_def [symmetric] s'_def [symmetric] .
qed

theorem ppg_score_is_chrom_pipeline_witness:
  "(let st = snd (analyze_all Map.empty (steady_history 59));
        sc = fst (analyze st sample_frame None ''cam'');
        s' = fst (get_session (snd (analyze st sample_frame None ''cam'')) ''cam'')
    in extract_forehead_rgb sample_frame None \<noteq> None \<and> 60 \<le> session_len s'
     \<and> length (buf_g s') = session_len s' \<and> length (buf_b s') = session_len s'
     \<and> sc = spec_ppg_score (buf_r s') (buf_g s') (buf_b s'))"
proof -
  note th = ppg_score_is_chrom_pipeline [of "steady_history 59" sample_frame None "''cam''",
      unfolded Let_def]
  define s' where "s' = fst (get_session (snd (analyze (snd (analyze_all Map.empty
       (steady_history 59))) sample_frame None ''cam'')) ''cam'')"
  have e: "extract_forehead_rgb sample_frame None \<noteq> None"
    by (simp add: extract_sample_frame)
  have len: "60 \<le> session_len s'"
    unfolding s'_def steady_session
    by (simp add: session_len_append session_len_appends_new MAX_LEN_def)
  note c = th [folded s'_def, rule_format, OF conjI [OF e len]]
  show ?thesis
    unfolding Let_def s'_def [symmetric]
    using e len c by (intro conjI) simp_all
qed

end
